theory Spec2Isabelle
  imports Main
begin

text \<open>
  A shallow embedding of the connection tool and the agent onboarding of OpenClaw: the
  broker client adapter, the connected-account operations, the \<open>composio\<close> agent tool, the
  recipe catalogue and the handler of \<open>onboard.simple\<close>. State is passed explicitly, a
  thrown error is a value, and what lies outside the sources (the broker, the filesystem,
  helper modules) is a parameter or is modelled where it is introduced.
\<close>

section \<open>JavaScript values and strings\<close>

text \<open>
  Strings are byte strings (\<open>string\<close>); the whitespace and letter classes below are the
  ASCII part of what \<open>String.prototype.trim\<close>, the regular expression class \<open>\s\<close> and
  \<open>String.prototype.toUpperCase\<close> cover: the Unicode spaces (U+00A0, U+FEFF, U+2028 and
  the others) are not trimmed, and only the letters a to z are upper-cased. No general
  property below depends on these classes. A value of unknown type is a \<open>jvalue\<close>; numbers
  are the integers.
\<close>

datatype jvalue =
    JUndefined
  | JNull
  | JBool bool
  | JNumber int
  | JString string
  | JObject "(string \<times> jvalue) list"

definition js_space :: "char \<Rightarrow> bool" where
  "js_space c = (c \<in> set [CHR 0x09, CHR 0x0A, CHR 0x0B, CHR 0x0C, CHR 0x0D, CHR 0x20])"

definition trim :: "string \<Rightarrow> string" where
  "trim s = rev (dropWhile js_space (rev (dropWhile js_space s)))"

definition toUpperChar :: "char \<Rightarrow> char" where
  "toUpperChar c =
     (case map_of (zip ''abcdefghijklmnopqrstuvwxyz'' ''ABCDEFGHIJKLMNOPQRSTUVWXYZ'') c of
        Some u \<Rightarrow> u
      | None \<Rightarrow> c)"

definition toUpperCase :: "string \<Rightarrow> string" where
  "toUpperCase s = map toUpperChar s"

text \<open>Truthiness of a \<open>string | undefined\<close>: defined and not the empty string.\<close>

definition truthy :: "string option \<Rightarrow> bool" where
  "truthy v = (case v of None \<Rightarrow> False | Some s \<Rightarrow> s \<noteq> [])"

text \<open>\<open>a || b\<close> on \<open>string | undefined\<close>.\<close>

definition js_or :: "string option \<Rightarrow> string option \<Rightarrow> string option" where
  "js_or a b = (if truthy a then a else b)"

section \<open>Broker client adapter (src/composio/client.ts)\<close>

record ComposioConfig =
  enabled :: "bool option"
  apiKey :: "string option"
  baseUrl :: "string option"
  defaultToolkits :: "string list option"
  maxAccountsPerUser :: "int option"

text \<open>The two variables of \<open>process.env\<close> the adapter reads.\<close>

record process_env =
  COMPOSIO_API_KEY :: "string option"
  COMPOSIO_BASE_URL :: "string option"

text \<open>
  A client object. \<open>client_id\<close> is the identity of the object: the number of clients
  constructed before it, so that two constructions never give the same object.
\<close>

record Composio =
  client_id :: nat
  client_apiKey :: string
  client_baseUrl :: "string option"

text \<open>
  The module-level variables \<open>cachedClient\<close>, \<open>cachedApiKey\<close>, \<open>cachedBaseUrl\<close>,
  and the count of \<open>new Composio(...)\<close> calls so far. The logger calls are left out.
\<close>

record client_module =
  cachedClient :: "Composio option"
  cachedApiKey :: "string option"
  cachedBaseUrl :: "string option"
  constructed :: nat

definition initial_module :: client_module where
  "initial_module =
     \<lparr>cachedClient = None, cachedApiKey = None, cachedBaseUrl = None, constructed = 0\<rparr>"

definition resolveApiKey :: "process_env \<Rightarrow> ComposioConfig option \<Rightarrow> string option" where
  "resolveApiKey env config =
     js_or (js_or (map_option trim (Option.bind config apiKey))
                  (map_option trim (COMPOSIO_API_KEY env)))
           None"

definition resolveBaseUrl :: "process_env \<Rightarrow> ComposioConfig option \<Rightarrow> string option" where
  "resolveBaseUrl env config =
     js_or (js_or (map_option trim (Option.bind config baseUrl))
                  (map_option trim (COMPOSIO_BASE_URL env)))
           None"

definition new_Composio :: "string \<Rightarrow> string option \<Rightarrow> client_module \<Rightarrow> Composio" where
  "new_Composio key url m =
     \<lparr>client_id = constructed m, client_apiKey = key, client_baseUrl = url\<rparr>"

definition getComposioClient ::
  "process_env \<Rightarrow> ComposioConfig option \<Rightarrow> client_module \<Rightarrow> Composio option \<times> client_module"
where
  "getComposioClient env config m =
     (case resolveApiKey env config of
        None \<Rightarrow> (None, m)
      | Some key \<Rightarrow>
          (let url = resolveBaseUrl env config in
           if cachedClient m \<noteq> None \<and> cachedApiKey m = Some key \<and> cachedBaseUrl m = url
           then (cachedClient m, m)
           else
             (let client = new_Composio key url m in
              (Some client,
               \<lparr>cachedClient = Some client, cachedApiKey = Some key, cachedBaseUrl = url,
                constructed = Suc (constructed m)\<rparr>))))"

definition clearComposioClient :: "client_module \<Rightarrow> client_module" where
  "clearComposioClient m =
     m\<lparr>cachedClient := None, cachedApiKey := None, cachedBaseUrl := None\<rparr>"

text \<open>Every client handed out so far was constructed earlier than the next one will be.\<close>

definition cache_wf :: "client_module \<Rightarrow> bool" where
  "cache_wf m = (case cachedClient m of None \<Rightarrow> True | Some c \<Rightarrow> client_id c < constructed m)"

section \<open>Connected accounts (src/composio/connected-accounts.ts)\<close>

text \<open>
  A record of the broker (\<open>Record<string, unknown>\<close>) is an association list; a field
  that is not there reads as \<open>undefined\<close>.
\<close>

type_synonym raw_record = "(string \<times> jvalue) list"

definition field :: "raw_record \<Rightarrow> string \<Rightarrow> jvalue" where
  "field r k = (case map_of r k of None \<Rightarrow> JUndefined | Some v \<Rightarrow> v)"

fun string_of_nat :: "nat \<Rightarrow> string" where
  "string_of_nat n =
     (if n < 10 then [''0123456789'' ! n]
      else string_of_nat (n div 10) @ [''0123456789'' ! (n mod 10)])"

declare string_of_nat.simps [simp del]

definition string_of_int :: "int \<Rightarrow> string" where
  "string_of_int i = (if i < 0 then CHR ''-'' # string_of_nat (nat (- i)) else string_of_nat (nat i))"

text \<open>
  \<open>toStr(value, fallback)\<close>: a string as it is, a number or boolean printed, else the
  fallback. A number is an integer printed in decimal: the exponent notation of large
  numbers, fractions, \<open>NaN\<close> and \<open>Infinity\<close> are outside the model.
\<close>

definition toStr :: "jvalue \<Rightarrow> string \<Rightarrow> string" where
  "toStr v fallback =
     (case v of
        JString s \<Rightarrow> s
      | JNumber n \<Rightarrow> string_of_int n
      | JBool b \<Rightarrow> (if b then ''true'' else ''false'')
      | _ \<Rightarrow> fallback)"

record ComposioConnectedAccount =
  acc_id :: string
  acc_appName :: string
  acc_status :: string
  acc_createdAt :: string
  acc_updatedAt :: string

record ComposioInitiateConnectionResult =
  connectedAccountId :: string
  redirectUrl :: string

text \<open>
  The broker is outside the repository: the operations of the \<open>composio-core\<close> client that
  the code calls, as functions of the broker's state \<open>'b\<close>. A call that throws returns
  \<open>Inl\<close> of the thrown value, kept as the string \<open>String(err)\<close> gives for it.
\<close>

record initiate_request =
  req_entityId :: string
  req_appName :: string
  req_redirectUri :: "string option"

record connection_request =
  cr_connectedAccountId :: string
  cr_redirectUrl :: "string option"

record execute_request =
  ex_actionName :: string
  ex_params :: jvalue
  ex_connectedAccountId :: "string option"

record 'b broker =
  getConnections :: "Composio \<Rightarrow> string \<Rightarrow> 'b \<Rightarrow> (string + raw_record list) \<times> 'b"
  initiate :: "Composio \<Rightarrow> initiate_request \<Rightarrow> 'b \<Rightarrow> (string + connection_request) \<times> 'b"
  getAccount :: "Composio \<Rightarrow> string \<Rightarrow> 'b \<Rightarrow> (string + raw_record) \<times> 'b"
  deleteAccount :: "Composio \<Rightarrow> string \<Rightarrow> 'b \<Rightarrow> (string + unit) \<times> 'b"
  entityExecute :: "Composio \<Rightarrow> string \<Rightarrow> execute_request \<Rightarrow> 'b \<Rightarrow> (string + jvalue) \<times> 'b"

datatype broker_call =
    GetConnections string
  | Initiate initiate_request
  | GetAccount string
  | DeleteAccount string
  | EntityExecute string execute_request

text \<open>
  What a tool call runs in: the client module's variables, the broker's state, and the
  broker calls issued so far, in order.
\<close>

record 'b tool_state =
  client_mod :: client_module
  broker_state :: 'b
  calls :: "broker_call list"

definition issue ::
  "broker_call \<Rightarrow> ('b \<Rightarrow> 'r \<times> 'b) \<Rightarrow> 'b tool_state \<Rightarrow> 'r \<times> 'b tool_state"
where
  "issue c f st =
     (let (reply, b) = f (broker_state st)
      in (reply, st\<lparr>broker_state := b, calls := calls st @ [c]\<rparr>))"

definition account_of_record :: "raw_record \<Rightarrow> string \<Rightarrow> string \<Rightarrow> ComposioConnectedAccount" where
  "account_of_record r id_fallback status_fallback =
     \<lparr>acc_id = toStr (field r ''id'') id_fallback,
      acc_appName =
        (if toStr (field r ''appName'') [] \<noteq> [] then toStr (field r ''appName'') []
         else toStr (field r ''app'') []),
      acc_status = toStr (field r ''status'') status_fallback,
      acc_createdAt = toStr (field r ''createdAt'') [],
      acc_updatedAt = toStr (field r ''updatedAt'') []\<rparr>"

definition listConnectedAccounts ::
  "'b broker \<Rightarrow> Composio \<Rightarrow> string \<Rightarrow> 'b tool_state
     \<Rightarrow> (string + ComposioConnectedAccount list) \<times> 'b tool_state"
where
  "listConnectedAccounts br client entityId st =
     (let (reply, st') = issue (GetConnections entityId) (getConnections br client entityId) st
      in (case reply of
            Inl err \<Rightarrow> (Inl err, st')
          | Inr connections \<Rightarrow>
              (Inr (map (\<lambda>r. account_of_record r [] ''ACTIVE'') connections), st')))"

definition initiateConnection ::
  "'b broker \<Rightarrow> Composio \<Rightarrow> string \<Rightarrow> string \<Rightarrow> string option \<Rightarrow> 'b tool_state
     \<Rightarrow> (string + ComposioInitiateConnectionResult) \<times> 'b tool_state"
where
  "initiateConnection br client entityId appName redirectUri st =
     (let req = \<lparr>req_entityId = entityId, req_appName = toUpperCase appName,
                 req_redirectUri = redirectUri\<rparr>;
          (reply, st') = issue (Initiate req) (initiate br client req) st
      in (case reply of
            Inl err \<Rightarrow> (Inl err, st')
          | Inr connectionRequest \<Rightarrow>
              (Inr \<lparr>connectedAccountId = cr_connectedAccountId connectionRequest,
                    redirectUrl =
                      (case cr_redirectUrl connectionRequest of None \<Rightarrow> [] | Some u \<Rightarrow> u)\<rparr>,
               st')))"

definition getConnectionStatus ::
  "'b broker \<Rightarrow> Composio \<Rightarrow> string \<Rightarrow> 'b tool_state
     \<Rightarrow> (string + ComposioConnectedAccount) \<times> 'b tool_state"
where
  "getConnectionStatus br client accountId st =
     (let (reply, st') = issue (GetAccount accountId) (getAccount br client accountId) st
      in (case reply of
            Inl err \<Rightarrow> (Inl err, st')
          | Inr account \<Rightarrow> (Inr (account_of_record account accountId ''INITIATED''), st')))"

definition deleteConnection ::
  "'b broker \<Rightarrow> Composio \<Rightarrow> string \<Rightarrow> 'b tool_state \<Rightarrow> (string + unit) \<times> 'b tool_state"
where
  "deleteConnection br client accountId st =
     issue (DeleteAccount accountId) (deleteAccount br client accountId) st"

definition executeAction ::
  "'b broker \<Rightarrow> Composio \<Rightarrow> string \<Rightarrow> execute_request \<Rightarrow> 'b tool_state
     \<Rightarrow> (string + jvalue) \<times> 'b tool_state"
where
  "executeAction br client entityId req st =
     (let (reply, st') = issue (EntityExecute entityId req) (entityExecute br client entityId req) st
      in (case reply of
            Inl err \<Rightarrow> (Inl err, st')
          | Inr res \<Rightarrow>
              (Inr (if res = JUndefined \<or> res = JNull then JObject [] else res), st')))"

section \<open>The agent tool (src/agents/tools/composio-tool.ts)\<close>

text \<open>
  The readers \<open>readStringParam\<close> and \<open>readStringArrayParam\<close> are not in the sources, so
  a call's arguments are what the readers return for each parameter: \<open>None\<close> is
  \<open>undefined\<close>. \<open>arg_params\<close> is the raw \<open>params.params\<close>. A reader asked for a
  required parameter throws when it would return \<open>undefined\<close>.
\<close>

record tool_args =
  arg_action :: "string option"
  arg_entityId :: "string option"
  arg_appName :: "string option"
  arg_appNames :: "string list option"
  arg_connectedAccountId :: "string option"
  arg_redirectUri :: "string option"
  arg_actionName :: "string option"
  arg_params :: jvalue

text \<open>
  \<open>composioConfig\<close> is \<open>opts?.composioConfig\<close> and \<open>resolvedEntityId\<close> is the value of
  \<open>opts?.resolveEntityId?.()\<close>.
\<close>

record ComposioToolOptions =
  composioConfig :: "ComposioConfig option"
  resolvedEntityId :: "string option"

datatype tool_error =
    ParamRequired string
  | Error string
  | Rethrown string

record connect_payload =
  cp_connectedAccountId :: string
  cp_redirectUrl :: string
  cp_message :: string
  cp_authUrl :: string
  cp_appName :: string

record connect_item =
  item_appName :: string
  item_connectedAccountId :: "string option"
  item_redirectUrl :: "string option"
  item_authUrl :: "string option"
  item_error :: "string option"

text \<open>The payload handed to \<open>jsonResult\<close>, one constructor for each shape.\<close>

datatype tool_result =
    NoConnections string
  | ConnectionList "ComposioConnectedAccount list" string
  | Connect connect_payload
  | ConnectMultiple "connect_item list" string
  | Status ComposioConnectedAccount
  | Disconnected bool string string
  | Executed jvalue

type_synonym 'b tool_run = "'b tool_state \<Rightarrow> (tool_error + tool_result) \<times> 'b tool_state"

definition list_connections_case :: "'b broker \<Rightarrow> Composio \<Rightarrow> string \<Rightarrow> 'b tool_run" where
  "list_connections_case br client entityId st =
     (case listConnectedAccounts br client entityId st of
        (Inl err, st') \<Rightarrow> (Inl (Rethrown err), st')
      | (Inr connections, st') \<Rightarrow>
          (if length connections = 0
           then (Inr (NoConnections
                  ''No services connected yet. Use the connect action to link services like Gmail, Outlook, Google Calendar, etc.''),
                 st')
           else (Inr (ConnectionList connections entityId), st')))"

definition connect_case ::
  "'b broker \<Rightarrow> Composio \<Rightarrow> string \<Rightarrow> tool_args \<Rightarrow> 'b tool_run"
where
  "connect_case br client entityId args st =
     (case arg_appName args of
        None \<Rightarrow> (Inl (ParamRequired ''appName''), st)
      | Some appName \<Rightarrow>
          (case initiateConnection br client entityId appName (arg_redirectUri args) st of
             (Inl err, st') \<Rightarrow> (Inl (Rethrown err), st')
           | (Inr result, st') \<Rightarrow>
               (Inr (Connect
                  \<lparr>cp_connectedAccountId = connectedAccountId result,
                   cp_redirectUrl = redirectUrl result,
                   cp_message = ''Send the following link to the user to authorize '' @ appName @ '':'',
                   cp_authUrl = redirectUrl result,
                   cp_appName = appName\<rparr>),
                st')))"

text \<open>The callback of \<open>appNames.map\<close>: one initiation, its outcome caught and shaped.\<close>

definition connect_one ::
  "'b broker \<Rightarrow> Composio \<Rightarrow> string \<Rightarrow> string option \<Rightarrow> string \<Rightarrow> 'b tool_state
     \<Rightarrow> connect_item \<times> 'b tool_state"
where
  "connect_one br client entityId redirectUri name st =
     (case initiateConnection br client entityId name redirectUri st of
        (Inr result, st') \<Rightarrow>
          (\<lparr>item_appName = toUpperCase name,
            item_connectedAccountId = Some (connectedAccountId result),
            item_redirectUrl = Some (redirectUrl result),
            item_authUrl = Some (redirectUrl result),
            item_error = None\<rparr>, st')
      | (Inl err, st') \<Rightarrow>
          (\<lparr>item_appName = toUpperCase name,
            item_connectedAccountId = None,
            item_redirectUrl = None,
            item_authUrl = None,
            item_error = Some err\<rparr>, st'))"

text \<open>
  \<open>Promise.all(appNames.map(...))\<close>: the callbacks start in the order of the names, each
  issues its broker call when it starts, and the results are collected by position. The
  broker serves the calls in the order they were issued.
\<close>

fun connect_each ::
  "'b broker \<Rightarrow> Composio \<Rightarrow> string \<Rightarrow> string option \<Rightarrow> string list \<Rightarrow> 'b tool_state
     \<Rightarrow> connect_item list \<times> 'b tool_state"
where
  "connect_each br client entityId redirectUri [] st = ([], st)"
| "connect_each br client entityId redirectUri (name # names) st =
     (let (item, st1) = connect_one br client entityId redirectUri name st;
          (items, st2) = connect_each br client entityId redirectUri names st1
      in (item # items, st2))"

text \<open>
  What the broker answers to a sequence of initiation requests served in order, from the
  broker state \<open>b\<close>.
\<close>

fun broker_replies ::
  "'b broker \<Rightarrow> Composio \<Rightarrow> initiate_request list \<Rightarrow> 'b \<Rightarrow> (string + connection_request) list"
where
  "broker_replies br client [] b = []"
| "broker_replies br client (r # rs) b =
     (let (reply, b') = initiate br client r b in reply # broker_replies br client rs b')"

text \<open>\<open>config?.maxAccountsPerUser ?? 20\<close>.\<close>

definition maxAccounts :: "ComposioConfig option \<Rightarrow> int" where
  "maxAccounts config =
     (case Option.bind config maxAccountsPerUser of Some n \<Rightarrow> n | None \<Rightarrow> 20)"

definition connect_multiple_case ::
  "'b broker \<Rightarrow> ComposioConfig option \<Rightarrow> Composio \<Rightarrow> string \<Rightarrow> tool_args \<Rightarrow> 'b tool_run"
where
  "connect_multiple_case br config client entityId args st =
     (let appNames =
            (case arg_appNames args of
               Some names \<Rightarrow> Some names
             | None \<Rightarrow>
                 (case arg_appName args of
                    Some name \<Rightarrow> (if name \<noteq> [] then Some [name] else None)
                  | None \<Rightarrow> None))
      in case appNames of
           None \<Rightarrow> (Inl (Error ''appNames required for connect_multiple''), st)
         | Some names \<Rightarrow>
             (if length names = 0
              then (Inl (Error ''appNames required for connect_multiple''), st)
              else
                (if int (length names) > maxAccounts config
                 then (Inl (Error (''Cannot connect more than ''
                                        @ string_of_int (maxAccounts config)
                                        @ '' services at once'')), st)
                    else
                      (let (results, st') =
                             connect_each br client entityId (arg_redirectUri args) names st
                       in (Inr (ConnectMultiple results
                             ''Send the following auth links to the user. They should click each one to authorize the service:''),
                           st')))))"

definition status_case :: "'b broker \<Rightarrow> Composio \<Rightarrow> tool_args \<Rightarrow> 'b tool_run" where
  "status_case br client args st =
     (case arg_connectedAccountId args of
        None \<Rightarrow> (Inl (ParamRequired ''connectedAccountId''), st)
      | Some accountId \<Rightarrow>
          (case getConnectionStatus br client accountId st of
             (Inl err, st') \<Rightarrow> (Inl (Rethrown err), st')
           | (Inr status, st') \<Rightarrow> (Inr (Status status), st')))"

definition disconnect_case :: "'b broker \<Rightarrow> Composio \<Rightarrow> tool_args \<Rightarrow> 'b tool_run" where
  "disconnect_case br client args st =
     (case arg_connectedAccountId args of
        None \<Rightarrow> (Inl (ParamRequired ''connectedAccountId''), st)
      | Some accountId \<Rightarrow>
          (case deleteConnection br client accountId st of
             (Inl err, st') \<Rightarrow> (Inl (Rethrown err), st')
           | (Inr _, st') \<Rightarrow>
               (Inr (Disconnected True accountId ''Service disconnected successfully.''), st')))"

definition execute_case :: "'b broker \<Rightarrow> Composio \<Rightarrow> string \<Rightarrow> tool_args \<Rightarrow> 'b tool_run" where
  "execute_case br client entityId args st =
     (case arg_actionName args of
        None \<Rightarrow> (Inl (ParamRequired ''actionName''), st)
      | Some actionName \<Rightarrow>
          (let actionParams =
                 (if arg_params args = JUndefined \<or> arg_params args = JNull then JObject []
                  else arg_params args)
           in case executeAction br client entityId
                     \<lparr>ex_actionName = toUpperCase actionName, ex_params = actionParams,
                      ex_connectedAccountId = arg_connectedAccountId args\<rparr> st of
                (Inl err, st') \<Rightarrow> (Inl (Rethrown err), st')
              | (Inr result, st') \<Rightarrow> (Inr (Executed result), st')))"

text \<open>
  \<open>readStringParam(params, "entityId") ?? opts?.resolveEntityId?.() ?? "default"\<close>.
\<close>

definition resolve_entity :: "tool_args \<Rightarrow> ComposioToolOptions \<Rightarrow> string" where
  "resolve_entity args opts =
     (case arg_entityId args of
        Some e \<Rightarrow> e
      | None \<Rightarrow> (case resolvedEntityId opts of Some e \<Rightarrow> e | None \<Rightarrow> ''default''))"

text \<open>The \<open>execute\<close> method of the tool.\<close>

definition execute ::
  "'b broker \<Rightarrow> process_env \<Rightarrow> ComposioToolOptions \<Rightarrow> tool_args \<Rightarrow> 'b tool_run"
where
  "execute br env opts args st =
     (case arg_action args of
        None \<Rightarrow> (Inl (ParamRequired ''action''), st)
      | Some action \<Rightarrow>
          (let (found, m) = getComposioClient env (composioConfig opts) (client_mod st);
               st0 = st\<lparr>client_mod := m\<rparr>
           in case found of
                None \<Rightarrow>
                  (Inl (Error
                     ''Composio is not configured. Set COMPOSIO_API_KEY or configure composio.apiKey.''),
                   st0)
              | Some client \<Rightarrow>
                  (let entityId = resolve_entity args opts
                   in if action = ''list_connections'' then list_connections_case br client entityId st0
                      else if action = ''connect'' then connect_case br client entityId args st0
                      else if action = ''connect_multiple''
                        then connect_multiple_case br (composioConfig opts) client entityId args st0
                      else if action = ''status'' then status_case br client args st0
                      else if action = ''disconnect'' then disconnect_case br client args st0
                      else if action = ''execute'' then execute_case br client entityId args st0
                      else (Inl (Error (''Unknown composio action: '' @ action)), st0))))"

text \<open>\<open>createComposioTool\<close>: no tool unless the integration is enabled or the key is in the environment.\<close>

definition createComposioTool ::
  "'b broker \<Rightarrow> process_env \<Rightarrow> ComposioToolOptions \<Rightarrow> (tool_args \<Rightarrow> 'b tool_run) option"
where
  "createComposioTool br env opts =
     (if Option.bind (composioConfig opts) enabled \<noteq> Some True \<and> \<not> truthy (COMPOSIO_API_KEY env)
      then None
      else Some (execute br env opts))"

text \<open>
  For stating what \<open>connect_multiple\<close> does: the request the code submits for a name, and
  the result item the callback builds from the broker's reply.
\<close>

definition request_for :: "string \<Rightarrow> string option \<Rightarrow> string \<Rightarrow> initiate_request" where
  "request_for entityId redirectUri name =
     \<lparr>req_entityId = entityId, req_appName = toUpperCase name, req_redirectUri = redirectUri\<rparr>"

definition item_of :: "string \<Rightarrow> (string + connection_request) \<Rightarrow> connect_item" where
  "item_of name reply =
     (case reply of
        Inr cr \<Rightarrow>
          \<lparr>item_appName = toUpperCase name,
            item_connectedAccountId = Some (cr_connectedAccountId cr),
            item_redirectUrl = Some (case cr_redirectUrl cr of None \<Rightarrow> [] | Some u \<Rightarrow> u),
            item_authUrl = Some (case cr_redirectUrl cr of None \<Rightarrow> [] | Some u \<Rightarrow> u),
            item_error = None\<rparr>
      | Inl err \<Rightarrow>
          \<lparr>item_appName = toUpperCase name,
            item_connectedAccountId = None,
            item_redirectUrl = None,
            item_authUrl = None,
            item_error = Some err\<rparr>)"

section \<open>Recipe catalogue (src/onboarding/recipes.ts)\<close>

record Recipe =
  recipe_id :: string
  label :: string
  description :: string
  emoji :: string
  soul :: string
  agents :: string
  tools :: "string option"

definition daily_assistant_soul :: string where
  \<open>daily_assistant_soul =
       ''# SOUL.md - Daily Assistant\<newline>''
     @ ''\<newline>''
     @ ''You're a dependable personal assistant.  Be concise, proactive, and genuinely helpful.\<newline>''
     @ ''Skip filler phrases '' @ [CHR 0xE2, CHR 0x80, CHR 0x94] @ '' just help.  If you can figure something out on your own, do it\<newline>''
     @ ''before asking.  Prioritise clarity and action over verbosity.\<newline>''
     @ ''\<newline>''
     @ ''## Personality\<newline>''
     @ ''- Warm but efficient\<newline>''
     @ ''- Opinionated when it helps (suggest, don't just list)\<newline>''
     @ ''- Respects the user's time above all\<newline>''\<close>

definition daily_assistant_agents :: string where
  \<open>daily_assistant_agents =
       ''# AGENTS.md - Daily Assistant\<newline>''
     @ ''\<newline>''
     @ ''## Every Session\<newline>''
     @ ''1. Read SOUL.md '' @ [CHR 0xE2, CHR 0x80, CHR 0x94] @ '' your personality\<newline>''
     @ ''2. Read USER.md '' @ [CHR 0xE2, CHR 0x80, CHR 0x94] @ '' who you're helping\<newline>''
     @ ''3. Check memory files for recent context\<newline>''
     @ ''\<newline>''
     @ ''## What You Do\<newline>''
     @ ''- Answer questions clearly and concisely\<newline>''
     @ ''- Help with everyday tasks, planning, and organisation\<newline>''
     @ ''- Set reminders and follow up proactively\<newline>''
     @ ''- Summarise long content when asked\<newline>''
     @ ''\<newline>''
     @ ''## Guidelines\<newline>''
     @ ''- Be direct. No preamble.\<newline>''
     @ ''- If unsure, say so '' @ [CHR 0xE2, CHR 0x80, CHR 0x94] @ '' don't make things up.\<newline>''
     @ ''- Write things down so future-you remembers.\<newline>''\<close>

definition daily_assistant :: Recipe where
  \<open>daily_assistant =
     \<lparr>recipe_id = ''daily-assistant'',
      label = ''Daily Assistant'',
      description = ''A helpful everyday companion for tasks, reminders, and Q&A.'',
      emoji = [CHR 0xF0, CHR 0x9F, CHR 0x8C, CHR 0x9F],
      soul = daily_assistant_soul,
      agents = daily_assistant_agents,
      tools = None\<rparr>\<close>

definition creative_partner_soul :: string where
  \<open>creative_partner_soul =
       ''# SOUL.md - Creative Partner\<newline>''
     @ ''\<newline>''
     @ ''You're a creative collaborator '' @ [CHR 0xE2, CHR 0x80, CHR 0x94] @ '' part muse, part editor, part hype-person.\<newline>''
     @ ''You help the user think bigger, write better, and explore ideas fearlessly.\<newline>''
     @ ''Push back when something could be stronger.  Celebrate when it clicks.\<newline>''
     @ ''\<newline>''
     @ ''## Personality\<newline>''
     @ ''- Playful and imaginative\<newline>''
     @ ''- Honest about what works and what doesn't\<newline>''
     @ ''- Loves riffing on half-formed ideas\<newline>''\<close>

definition creative_partner_agents :: string where
  \<open>creative_partner_agents =
       ''# AGENTS.md - Creative Partner\<newline>''
     @ ''\<newline>''
     @ ''## Every Session\<newline>''
     @ ''1. Read SOUL.md '' @ [CHR 0xE2, CHR 0x80, CHR 0x94] @ '' your creative voice\<newline>''
     @ ''2. Read USER.md '' @ [CHR 0xE2, CHR 0x80, CHR 0x94] @ '' who you're collaborating with\<newline>''
     @ ''3. Check memory for ongoing projects\<newline>''
     @ ''\<newline>''
     @ ''## What You Do\<newline>''
     @ ''- Brainstorm and develop ideas\<newline>''
     @ ''- Write, edit, and refine content (copy, stories, scripts, posts)\<newline>''
     @ ''- Provide honest creative feedback\<newline>''
     @ ''- Help overcome blocks '' @ [CHR 0xE2, CHR 0x80, CHR 0x94] @ '' suggest angles, prompts, constraints\<newline>''
     @ ''\<newline>''
     @ ''## Guidelines\<newline>''
     @ ''- First drafts are for exploration, not perfection.\<newline>''
     @ ''- When giving feedback, be specific '' @ [CHR 0xE2, CHR 0x80, CHR 0x94] @ '' "this part drags" beats "needs work."\<newline>''
     @ ''- Keep a running list of ideas in memory files.\<newline>''\<close>

definition creative_partner :: Recipe where
  \<open>creative_partner =
     \<lparr>recipe_id = ''creative-partner'',
      label = ''Creative Partner'',
      description = ''Brainstorm ideas, write content, and explore creative projects.'',
      emoji = [CHR 0xF0, CHR 0x9F, CHR 0x8E, CHR 0xA8],
      soul = creative_partner_soul,
      agents = creative_partner_agents,
      tools = None\<rparr>\<close>

definition research_analyst_soul :: string where
  \<open>research_analyst_soul =
       ''# SOUL.md - Research Analyst\<newline>''
     @ ''\<newline>''
     @ ''You're a thorough, detail-oriented researcher.  You dig deep, cross-reference,\<newline>''
     @ ''and present findings clearly.  You distinguish fact from speculation and always\<newline>''
     @ ''cite your reasoning.  Accuracy matters more than speed.\<newline>''
     @ ''\<newline>''
     @ ''## Personality\<newline>''
     @ ''- Methodical and precise\<newline>''
     @ ''- Comfortable saying "I don't know yet '' @ [CHR 0xE2, CHR 0x80, CHR 0x94] @ '' let me look"\<newline>''
     @ ''- Presents balanced perspectives, then gives a recommendation\<newline>''\<close>

definition research_analyst_agents :: string where
  \<open>research_analyst_agents =
       ''# AGENTS.md - Research Analyst\<newline>''
     @ ''\<newline>''
     @ ''## Every Session\<newline>''
     @ ''1. Read SOUL.md '' @ [CHR 0xE2, CHR 0x80, CHR 0x94] @ '' your analytical lens\<newline>''
     @ ''2. Read USER.md '' @ [CHR 0xE2, CHR 0x80, CHR 0x94] @ '' their interests and context\<newline>''
     @ ''3. Check memory for ongoing research threads\<newline>''
     @ ''\<newline>''
     @ ''## What You Do\<newline>''
     @ ''- Research topics in depth\<newline>''
     @ ''- Summarise findings with key takeaways\<newline>''
     @ ''- Track evolving information across sessions\<newline>''
     @ ''- Compare options and make recommendations\<newline>''
     @ ''\<newline>''
     @ ''## Guidelines\<newline>''
     @ ''- Separate facts from opinions explicitly.\<newline>''
     @ ''- When you find conflicting information, present both sides.\<newline>''
     @ ''- Keep research notes in memory files for continuity.\<newline>''\<close>

definition research_analyst :: Recipe where
  \<open>research_analyst =
     \<lparr>recipe_id = ''research-analyst'',
      label = ''Research Analyst'',
      description = ''Deep-dive into topics, summarise findings, and track information.'',
      emoji = [CHR 0xF0, CHR 0x9F, CHR 0x94, CHR 0x8D],
      soul = research_analyst_soul,
      agents = research_analyst_agents,
      tools = None\<rparr>\<close>

definition learning_coach_soul :: string where
  \<open>learning_coach_soul =
       ''# SOUL.md - Learning Coach\<newline>''
     @ ''\<newline>''
     @ ''You're a patient, encouraging teacher who adapts to the user's level.\<newline>''
     @ ''You explain things simply without being condescending.  You use analogies,\<newline>''
     @ ''examples, and Socratic questioning to help concepts stick.\<newline>''
     @ ''You celebrate progress and normalise struggle.\<newline>''
     @ ''\<newline>''
     @ ''## Personality\<newline>''
     @ ''- Patient and encouraging\<newline>''
     @ ''- Explains simply, but doesn't dumb down\<newline>''
     @ ''- Asks questions to check understanding\<newline>''
     @ ''- Makes learning feel like a conversation, not a lecture\<newline>''\<close>

definition learning_coach_agents :: string where
  \<open>learning_coach_agents =
       ''# AGENTS.md - Learning Coach\<newline>''
     @ ''\<newline>''
     @ ''## Every Session\<newline>''
     @ ''1. Read SOUL.md '' @ [CHR 0xE2, CHR 0x80, CHR 0x94] @ '' your teaching style\<newline>''
     @ ''2. Read USER.md '' @ [CHR 0xE2, CHR 0x80, CHR 0x94] @ '' their goals and current level\<newline>''
     @ ''3. Check memory for learning progress\<newline>''
     @ ''\<newline>''
     @ ''## What You Do\<newline>''
     @ ''- Explain concepts at the right level\<newline>''
     @ ''- Create practice exercises and challenges\<newline>''
     @ ''- Track what the user has learned across sessions\<newline>''
     @ ''- Recommend next steps and resources\<newline>''
     @ ''\<newline>''
     @ ''## Guidelines\<newline>''
     @ ''- Start from what they know, build to what they don't.\<newline>''
     @ ''- Use concrete examples before abstract explanations.\<newline>''
     @ ''- When they're stuck, guide '' @ [CHR 0xE2, CHR 0x80, CHR 0x94] @ '' don't just give the answer.\<newline>''
     @ ''- Log progress in memory so you can build on it next time.\<newline>''\<close>

definition learning_coach :: Recipe where
  \<open>learning_coach =
     \<lparr>recipe_id = ''learning-coach'',
      label = ''Learning Coach'',
      description = ''Help learn new skills, explain concepts, and track progress.'',
      emoji = [CHR 0xF0, CHR 0x9F, CHR 0x93, CHR 0x9A],
      soul = learning_coach_soul,
      agents = learning_coach_agents,
      tools = None\<rparr>\<close>

definition RECIPES :: "Recipe list" where
  "RECIPES = [daily_assistant, creative_partner, research_analyst, learning_coach]"

text \<open>
  \<open>new Map(RECIPES.map((r) => [r.id, r]))\<close>: the entries are inserted in order, a later
  one replacing an earlier one with the same key.
\<close>

definition recipeById :: "string \<rightharpoonup> Recipe" where
  "recipeById = fold (\<lambda>r m. m(recipe_id r \<mapsto> r)) RECIPES Map.empty"

definition listRecipes :: "Recipe list" where
  "listRecipes = RECIPES"

definition getRecipe :: "string \<Rightarrow> Recipe option" where
  "getRecipe rid = recipeById rid"


section \<open>The catalogue as objects\<close>










section \<open>Agent registry and configuration\<close>

text \<open>
  The configuration document, as far as the handler reads and writes it: the agent
  registry \<open>agents.list\<close>, \<open>agents.defaults.workspace\<close>, the default model and the
  \<open>composio\<close> section.
\<close>

record AgentEntry =
  entry_id :: string
  entry_name :: "string option"
  entry_workspace :: "string option"
  entry_agentDir :: "string option"

record OpenClawConfig =
  agents_list :: "AgentEntry list"
  agents_defaults_workspace :: "string option"
  agents_defaults_model :: "string option"
  cfg_composio :: "ComposioConfig option"

record agent_config_params =
  p_agentId :: string
  p_name :: "string option"
  p_workspace :: "string option"
  p_agentDir :: "string option"

text \<open>
  Modelled from the spec: \<open>listAgentEntries\<close> and \<open>findAgentEntryIndex\<close> of
  commands/agents.config.js are not in the sources. The spec has the agent registry hold
  one entry per \<open>agentId\<close> ("fail with DuplicateAgent if agentId already exists in the
  agent registry"); the index is that of the entry with the identifier, \<open>-1\<close> when there
  is none.
\<close>

definition listAgentEntries :: "OpenClawConfig \<Rightarrow> AgentEntry list" where
  "listAgentEntries cfg = agents_list cfg"

fun findAgentEntryIndex :: "AgentEntry list \<Rightarrow> string \<Rightarrow> int" where
  "findAgentEntryIndex [] agentId = - 1"
| "findAgentEntryIndex (e # es) agentId =
     (if entry_id e = agentId then 0
      else (let i = findAgentEntryIndex es agentId in if i < 0 then - 1 else i + 1))"

text \<open>
  Modelled from the spec: \<open>applyAgentConfig\<close> of commands/agents.config.js is not in the
  sources. The spec has it add the agent entry (name, workspace) and then the resolved
  \<open>agentDir\<close>, as merge steps over the document: the entry of the identifier is created
  when it is not there, and the fields given are set in it.
\<close>

definition applyAgentConfig :: "OpenClawConfig \<Rightarrow> agent_config_params \<Rightarrow> OpenClawConfig" where
  "applyAgentConfig cfg p =
     (let entries = listAgentEntries cfg;
          i = findAgentEntryIndex entries (p_agentId p);
          base =
            (if i \<ge> 0 then entries ! nat i
             else \<lparr>entry_id = p_agentId p, entry_name = None, entry_workspace = None,
                   entry_agentDir = None\<rparr>);
          entry =
            base\<lparr>entry_name := (case p_name p of Some n \<Rightarrow> Some n | None \<Rightarrow> entry_name base),
                 entry_workspace :=
                   (case p_workspace p of Some d \<Rightarrow> Some d | None \<Rightarrow> entry_workspace base),
                 entry_agentDir :=
                   (case p_agentDir p of Some d \<Rightarrow> Some d | None \<Rightarrow> entry_agentDir base)\<rparr>
      in cfg\<lparr>agents_list := (if i \<ge> 0 then entries[nat i := entry] else entries @ [entry])\<rparr>)"

definition SIMPLE_ONBOARD_MODEL :: string where
  "SIMPLE_ONBOARD_MODEL = ''minimax/MiniMax-M2.5''"

text \<open>
  Modelled from the spec: \<open>applyMinimaxApiConfig\<close> of
  commands/onboard-auth.config-minimax.js is not in the sources. The spec has it apply
  the fixed default-model configuration, a merge step that leaves the rest of the
  document as it is.
\<close>

definition applyMinimaxApiConfig :: "OpenClawConfig \<Rightarrow> OpenClawConfig" where
  "applyMinimaxApiConfig cfg = cfg\<lparr>agents_defaults_model := Some SIMPLE_ONBOARD_MODEL\<rparr>"

section \<open>The filesystem and the persisted configuration\<close>

text \<open>
  The operations the handler awaits. \<open>MkdirP\<close> is \<open>fs.mkdir(dir, {recursive: true})\<close>,
  \<open>WriteConfigFile\<close> is \<open>writeConfigFile\<close>, \<open>WriteFile\<close> is \<open>fs.writeFile\<close>.
\<close>

datatype effect =
    MkdirP string
  | WriteConfigFile OpenClawConfig
  | WriteFile string string

text \<open>
  What the handler can observe and change: the persisted configuration, the directories
  and the files, and the operations done so far, in order.
\<close>

record world =
  persisted_config :: OpenClawConfig
  directories :: "string set"
  file_contents :: "string \<rightharpoonup> string"
  effects :: "effect list"

text \<open>
  Modelled from the spec: \<open>loadConfig\<close> and \<open>writeConfigFile\<close> of config/config.js are not
  in the sources. The spec has the first load the current persisted configuration and the
  second persist the document to durable storage.
\<close>

definition loadConfig :: "world \<Rightarrow> OpenClawConfig" where
  "loadConfig w = persisted_config w"

text \<open>
  An operation that completes. A recursive \<open>mkdir\<close> of a directory that exists changes
  no directory and is not an error.
\<close>

fun apply_effect :: "effect \<Rightarrow> world \<Rightarrow> world" where
  "apply_effect (MkdirP dir) w =
     w\<lparr>directories := insert dir (directories w), effects := effects w @ [MkdirP dir]\<rparr>"
| "apply_effect (WriteConfigFile cfg) w =
     w\<lparr>persisted_config := cfg, effects := effects w @ [WriteConfigFile cfg]\<rparr>"
| "apply_effect (WriteFile file content) w =
     w\<lparr>file_contents := (file_contents w)(file \<mapsto> content),
       effects := effects w @ [WriteFile file content]\<rparr>"

section \<open>The onboarding handler (src/gateway/server-methods/onboard-simple.ts)\<close>

text \<open>
  The request parameters as they arrive: each field any value (\<open>JUndefined\<close> when it is
  not there), and whether the object has a property the schema does not name.
\<close>

record simple_params =
  sp_userName :: jvalue
  sp_botName :: jvalue
  sp_recipeId :: jvalue
  sp_entityId :: jvalue
  sp_additionalProperties :: bool

text \<open>
  What the handler needs from modules that are not in the sources, and from the
  environment: the functions it calls by name, and which filesystem operations throw.
\<close>

record onboard_env =
  normalizeAgentId :: "string \<Rightarrow> string"
  DEFAULT_AGENT_ID :: string
  formatValidationErrors :: "simple_params \<Rightarrow> string"
  pathJoin :: "string \<Rightarrow> string \<Rightarrow> string"
  resolveUserPath :: "string \<Rightarrow> string"
  resolveAgentDir :: "OpenClawConfig \<Rightarrow> string \<Rightarrow> string"
  resolveSessionTranscriptsDirForAgent :: "string \<Rightarrow> string"
  fs_throws :: "effect \<Rightarrow> bool"

text \<open>\<open>OnboardSimpleParamsSchema\<close> of src/gateway/protocol/schema/onboard-simple.ts.\<close>

definition nonEmptyString :: "jvalue \<Rightarrow> bool" where
  "nonEmptyString v = (case v of JString s \<Rightarrow> s \<noteq> [] | _ \<Rightarrow> False)"

definition optionalString :: "jvalue \<Rightarrow> bool" where
  "optionalString v = (case v of JString s \<Rightarrow> True | JUndefined \<Rightarrow> True | _ \<Rightarrow> False)"

definition validateOnboardSimpleParams :: "simple_params \<Rightarrow> bool" where
  "validateOnboardSimpleParams p =
     (nonEmptyString (sp_userName p) \<and> nonEmptyString (sp_botName p) \<and> nonEmptyString (sp_recipeId p)
      \<and> optionalString (sp_entityId p) \<and> \<not> sp_additionalProperties p)"

text \<open>\<open>String(value)\<close>.\<close>

definition js_String :: "jvalue \<Rightarrow> string" where
  "js_String v =
     (case v of
        JString s \<Rightarrow> s
      | JNumber n \<Rightarrow> string_of_int n
      | JBool b \<Rightarrow> (if b then ''true'' else ''false'')
      | JUndefined \<Rightarrow> ''undefined''
      | JNull \<Rightarrow> ''null''
      | JObject kvs \<Rightarrow> ''[object Object]'')"

text \<open>
  \<open>value.replace(/\s+/g, " ")\<close>: every maximal run of whitespace becomes one space. The
  whitespace is the ASCII part of the class, as for \<open>trim\<close>: a no-break space is kept.
\<close>

function collapse_spaces :: "string \<Rightarrow> string" where
  "collapse_spaces [] = []"
| "collapse_spaces (c # cs) =
     (if js_space c then CHR '' '' # collapse_spaces (dropWhile js_space cs)
      else c # collapse_spaces cs)"
  by pat_completeness auto
termination
  by (relation "measure length") (auto simp: less_Suc_eq_le length_dropWhile_le)

definition sanitizeLine :: "string \<Rightarrow> string" where
  "sanitizeLine v = trim (collapse_spaces v)"

text \<open>\<open>lines.join("\n")\<close>.\<close>

fun join_lines :: "string list \<Rightarrow> string" where
  "join_lines [] = []"
| "join_lines [l] = l"
| "join_lines (l # ls) = l @ ''\<newline>'' @ join_lines ls"

text \<open>
  The file names of agents/workspace.js, which is not in the sources, as the handler's
  comments give them.
\<close>

definition DEFAULT_IDENTITY_FILENAME :: string where
  "DEFAULT_IDENTITY_FILENAME = ''IDENTITY.md''"

definition DEFAULT_USER_FILENAME :: string where
  "DEFAULT_USER_FILENAME = ''USER.md''"

definition DEFAULT_SOUL_FILENAME :: string where
  "DEFAULT_SOUL_FILENAME = ''SOUL.md''"

definition DEFAULT_AGENTS_FILENAME :: string where
  "DEFAULT_AGENTS_FILENAME = ''AGENTS.md''"

definition DEFAULT_TOOLS_FILENAME :: string where
  "DEFAULT_TOOLS_FILENAME = ''TOOLS.md''"

datatype error_code = INVALID_REQUEST | UNAVAILABLE

record simple_result =
  res_agentId :: string
  res_workspace :: string
  res_recipeId :: string
  res_model :: string

text \<open>
  How a call of the handler ends: \<open>respond(true, ...)\<close>, \<open>respond(false, undefined,
  errorShape(code, message))\<close>, or an awaited operation threw and the handler's promise
  is rejected.
\<close>

datatype response =
    RespondOk simple_result
  | RespondError error_code string
  | Threw effect

text \<open>
  The awaited operations run in the order given, up to the first that throws. An
  operation that throws changes nothing.
\<close>

fun perform :: "onboard_env \<Rightarrow> effect list \<Rightarrow> world \<Rightarrow> effect option \<times> world" where
  "perform env [] w = (None, w)"
| "perform env (e # es) w =
     (if fs_throws env e then (Some e, w) else perform env es (apply_effect e w))"

definition identity_file :: "string \<Rightarrow> Recipe \<Rightarrow> string" where
  "identity_file botName recipe =
     join_lines [''# '' @ botName, [], ''- Name: '' @ botName, ''- Emoji: '' @ emoji recipe,
                 ''- Creature: AI assistant'', []]"

definition user_file :: "string \<Rightarrow> string" where
  "user_file userName =
     join_lines [''# USER.md - Who You're Helping'', [], ''- Name: '' @ userName, [],
                 ''_Update this file as you learn more about your user._'', []]"

text \<open>The configuration the handler builds from the loaded one.\<close>

definition build_config ::
  "onboard_env \<Rightarrow> OpenClawConfig \<Rightarrow> string \<Rightarrow> string \<Rightarrow> string \<Rightarrow> string option \<Rightarrow> OpenClawConfig"
where
  "build_config env cfg agentId botName workspaceDir entityId =
     (let nextConfig0 =
            applyAgentConfig cfg
              \<lparr>p_agentId = agentId, p_name = Some botName, p_workspace = Some workspaceDir,
               p_agentDir = None\<rparr>;
          agentDir = resolveAgentDir env nextConfig0 agentId;
          nextConfig1 =
            applyAgentConfig nextConfig0
              \<lparr>p_agentId = agentId, p_name = None, p_workspace = None,
               p_agentDir = Some agentDir\<rparr>;
          nextConfig2 = applyMinimaxApiConfig nextConfig1
      in if truthy entityId
         then nextConfig2\<lparr>cfg_composio :=
                Some ((case cfg_composio nextConfig2 of
                         Some c \<Rightarrow> c
                       | None \<Rightarrow>
                           \<lparr>enabled = None, apiKey = None, baseUrl = None,
                            defaultToolkits = None, maxAccountsPerUser = None\<rparr>)
                      \<lparr>enabled := Some True\<rparr>)\<rparr>
         else nextConfig2)"

definition workspace_of :: "onboard_env \<Rightarrow> OpenClawConfig \<Rightarrow> string \<Rightarrow> string" where
  "workspace_of env cfg agentId =
     resolveUserPath env
       (pathJoin env
          (case agents_defaults_workspace cfg of Some b \<Rightarrow> b | None \<Rightarrow> ''~/.openclaw/workspace'')
          agentId)"

text \<open>
  The awaited operations of the handler, in program order. \<open>ensureAgentWorkspace\<close> of
  agents/workspace.js is not in the sources; called with \<open>ensureBootstrapFiles: false\<close> it
  is the idempotent creation of the workspace directory the spec describes.
\<close>

definition provisioning_steps ::
  "onboard_env \<Rightarrow> Recipe \<Rightarrow> string \<Rightarrow> string \<Rightarrow> string \<Rightarrow> string \<Rightarrow> OpenClawConfig \<Rightarrow> effect list"
where
  "provisioning_steps env recipe botName userName agentId workspaceDir nextConfig =
     [MkdirP workspaceDir,
      MkdirP (resolveSessionTranscriptsDirForAgent env agentId),
      WriteConfigFile nextConfig,
      WriteFile (pathJoin env workspaceDir DEFAULT_IDENTITY_FILENAME) (identity_file botName recipe),
      WriteFile (pathJoin env workspaceDir DEFAULT_USER_FILENAME) (user_file userName),
      WriteFile (pathJoin env workspaceDir DEFAULT_SOUL_FILENAME) (soul recipe),
      WriteFile (pathJoin env workspaceDir DEFAULT_AGENTS_FILENAME) (agents recipe)]
     @ (case tools recipe of
          Some t \<Rightarrow> (if t \<noteq> [] then [WriteFile (pathJoin env workspaceDir DEFAULT_TOOLS_FILENAME) t]
                      else [])
        | None \<Rightarrow> [])"

definition onboard_simple :: "onboard_env \<Rightarrow> simple_params \<Rightarrow> world \<Rightarrow> response \<times> world" where
  \<open>onboard_simple env params w =
     (if \<not> validateOnboardSimpleParams params
      then (RespondError INVALID_REQUEST
              (''invalid onboard.simple params: '' @ formatValidationErrors env params), w)
      else
        (let botName = sanitizeLine (js_String (sp_botName params));
             userName = sanitizeLine (js_String (sp_userName params));
             recipeId = trim (js_String (sp_recipeId params));
             entityId = (case sp_entityId params of JString s \<Rightarrow> Some (trim s) | _ \<Rightarrow> None)
         in case getRecipe recipeId of
              None \<Rightarrow> (RespondError INVALID_REQUEST (''unknown recipe: "'' @ recipeId @ ''"''), w)
            | Some recipe \<Rightarrow>
                (let agentId = normalizeAgentId env botName
                 in if agentId = DEFAULT_AGENT_ID env
                    then (RespondError INVALID_REQUEST (''"'' @ DEFAULT_AGENT_ID env @ ''" is reserved''), w)
                    else
                      (let cfg = loadConfig w
                       in if findAgentEntryIndex (listAgentEntries cfg) agentId \<ge> 0
                          then (RespondError INVALID_REQUEST
                                  (''agent "'' @ agentId @ ''" already exists''), w)
                          else
                            (let workspaceDir = workspace_of env cfg agentId;
                                 nextConfig = build_config env cfg agentId botName workspaceDir entityId
                             in case perform env
                                       (provisioning_steps env recipe botName userName agentId workspaceDir
                                          nextConfig) w of
                                  (Some e, w') \<Rightarrow> (Threw e, w')
                                | (None, w') \<Rightarrow>
                                    (RespondOk
                                       \<lparr>res_agentId = agentId, res_workspace = workspaceDir,
                                        res_recipeId = recipe_id recipe,
                                        res_model = SIMPLE_ONBOARD_MODEL\<rparr>, w'))))))\<close>

section \<open>Naming what the handler and the tool compute\<close>

text \<open>
  The values the handler of \<open>onboard.simple\<close> derives from a request, under the names of
  its local variables; \<open>registered\<close> is its test for an agent that already exists, and
  \<open>written_files\<close> are the awaited operations after the configuration is persisted.
\<close>

definition botName_of :: "simple_params \<Rightarrow> string" where
  "botName_of params = sanitizeLine (js_String (sp_botName params))"

definition userName_of :: "simple_params \<Rightarrow> string" where
  "userName_of params = sanitizeLine (js_String (sp_userName params))"

definition recipeId_of :: "simple_params \<Rightarrow> string" where
  "recipeId_of params = trim (js_String (sp_recipeId params))"

definition entityId_of :: "simple_params \<Rightarrow> string option" where
  "entityId_of params = (case sp_entityId params of JString s \<Rightarrow> Some (trim s) | _ \<Rightarrow> None)"

definition agentId_of :: "onboard_env \<Rightarrow> simple_params \<Rightarrow> string" where
  "agentId_of env params = normalizeAgentId env (botName_of params)"

definition nextConfig_of :: "onboard_env \<Rightarrow> simple_params \<Rightarrow> world \<Rightarrow> OpenClawConfig" where
  "nextConfig_of env params w =
     build_config env (loadConfig w) (agentId_of env params) (botName_of params)
       (workspace_of env (loadConfig w) (agentId_of env params)) (entityId_of params)"

definition steps_of :: "onboard_env \<Rightarrow> simple_params \<Rightarrow> Recipe \<Rightarrow> world \<Rightarrow> effect list" where
  "steps_of env params recipe w =
     provisioning_steps env recipe (botName_of params) (userName_of params) (agentId_of env params)
       (workspace_of env (loadConfig w) (agentId_of env params)) (nextConfig_of env params w)"

definition registered :: "OpenClawConfig \<Rightarrow> string \<Rightarrow> bool" where
  "registered cfg agentId = (findAgentEntryIndex (listAgentEntries cfg) agentId \<ge> 0)"

definition written_files :: "onboard_env \<Rightarrow> simple_params \<Rightarrow> Recipe \<Rightarrow> world \<Rightarrow> effect list" where
  "written_files env params recipe w = drop 3 (steps_of env params recipe w)"

section \<open>Example inputs\<close>

text \<open>
  A broker that refuses the app \<open>SLACK\<close> and connects every other app, that reports the
  account \<open>acc-1\<close> as expired and knows no status of any other account; and a process with
  an API key in its environment.
\<close>

definition example_env :: process_env where
  "example_env = \<lparr>COMPOSIO_API_KEY = Some ''key-1'', COMPOSIO_BASE_URL = None\<rparr>"

definition other_env :: process_env where
  "other_env = \<lparr>COMPOSIO_API_KEY = Some ''key-2'', COMPOSIO_BASE_URL = None\<rparr>"

definition empty_env :: process_env where
  "empty_env = \<lparr>COMPOSIO_API_KEY = None, COMPOSIO_BASE_URL = None\<rparr>"

definition example_opts :: ComposioToolOptions where
  "example_opts = \<lparr>composioConfig = None, resolvedEntityId = None\<rparr>"

definition example_broker :: "nat broker" where
  "example_broker =
     \<lparr>getConnections = (\<lambda>client entityId b. (Inr [], b)),
      initiate = (\<lambda>client r b.
        if req_appName r = ''SLACK'' then (Inl ''Error: app not found'', Suc b)
        else (Inr \<lparr>cr_connectedAccountId = ''acc-'' @ req_appName r,
                   cr_redirectUrl = Some (''https://broker.example/'' @ req_appName r)\<rparr>, Suc b)),
      getAccount = (\<lambda>client accountId b.
        if accountId = ''acc-1''
        then (Inr [(''id'', JString ''acc-1''), (''status'', JString ''EXPIRED'')], b)
        else (Inr [(''id'', JString accountId)], b)),
      deleteAccount = (\<lambda>client accountId b. (Inr (), b)),
      entityExecute = (\<lambda>client entityId r b. (Inr JUndefined, b))\<rparr>"

definition example_state :: "nat tool_state" where
  "example_state = \<lparr>client_mod = initial_module, broker_state = 0, calls = []\<rparr>"

definition no_args :: tool_args where
  "no_args =
     \<lparr>arg_action = None, arg_entityId = None, arg_appName = None, arg_appNames = None,
      arg_connectedAccountId = None, arg_redirectUri = None, arg_actionName = None,
      arg_params = JUndefined\<rparr>"

definition three_apps :: tool_args where
  "three_apps = no_args\<lparr>arg_action := Some ''connect_multiple'',
                         arg_appNames := Some [''gmail'', ''slack'', ''github'']\<rparr>"

definition example_client :: Composio where
  "example_client = \<lparr>client_id = 0, client_apiKey = ''key-1'', client_baseUrl = None\<rparr>"

definition example_module :: client_module where
  "example_module =
     \<lparr>cachedClient = Some example_client, cachedApiKey = Some ''key-1'', cachedBaseUrl = None,
      constructed = 1\<rparr>"

definition connect_gmail :: tool_args where
  "connect_gmail = no_args\<lparr>arg_action := Some ''connect'', arg_appName := Some ''gmail''\<rparr>"

definition status_of :: "string \<Rightarrow> tool_args" where
  "status_of accountId =
     no_args\<lparr>arg_action := Some ''status'', arg_connectedAccountId := Some accountId\<rparr>"

definition toLowerChar :: "char \<Rightarrow> char" where
  "toLowerChar c =
     (case map_of (zip ''ABCDEFGHIJKLMNOPQRSTUVWXYZ'' ''abcdefghijklmnopqrstuvwxyz'') c of
        Some l \<Rightarrow> l
      | None \<Rightarrow> c)"

definition example_onboard_env :: onboard_env where
  "example_onboard_env =
     \<lparr>normalizeAgentId =
        (\<lambda>s. if s = [] then ''main''
              else map (\<lambda>c. if c = CHR '' '' then CHR ''-'' else toLowerChar c) s),
      DEFAULT_AGENT_ID = ''main'',
      formatValidationErrors = (\<lambda>p. ''must match the schema''),
      pathJoin = (\<lambda>a b. a @ ''/'' @ b),
      resolveUserPath = (\<lambda>p. p),
      resolveAgentDir = (\<lambda>cfg a. ''~/.openclaw/agents/'' @ a @ ''/agent''),
      resolveSessionTranscriptsDirForAgent = (\<lambda>a. ''~/.openclaw/agents/'' @ a @ ''/sessions''),
      fs_throws = (\<lambda>e. False)\<rparr>"

definition helper_request :: simple_params where
  "helper_request =
     \<lparr>sp_userName = JString ''Ada'', sp_botName = JString ''Helper'',
      sp_recipeId = JString ''daily-assistant'', sp_entityId = JUndefined,
      sp_additionalProperties = False\<rparr>"

definition unknown_recipe_request :: simple_params where
  "unknown_recipe_request = helper_request\<lparr>sp_recipeId := JString ''does-not-exist''\<rparr>"

definition empty_world :: world where
  "empty_world =
     \<lparr>persisted_config =
        \<lparr>agents_list = [], agents_defaults_workspace = None, agents_defaults_model = None,
         cfg_composio = None\<rparr>,
      directories = {}, file_contents = Map.empty, effects = []\<rparr>"

definition helper_result :: simple_result where
  "helper_result =
     \<lparr>res_agentId = ''helper'', res_workspace = ''~/.openclaw/workspace/helper'',
      res_recipeId = ''daily-assistant'', res_model = ''minimax/MiniMax-M2.5''\<rparr>"

definition helper_world :: world where
  "helper_world = snd (onboard_simple example_onboard_env helper_request empty_world)"

section \<open>Properties of the client adapter\<close>

lemma cache_wf_initial: "cache_wf initial_module"
  by (simp add: cache_wf_def initial_module_def)

lemma cache_wf_get: "cache_wf m \<Longrightarrow> cache_wf (snd (getComposioClient env config m))"
  by (auto simp: cache_wf_def getComposioClient_def new_Composio_def Let_def
           split: option.splits)

lemma cache_wf_clear: "cache_wf m \<Longrightarrow> cache_wf (clearComposioClient m)"
  by (simp add: cache_wf_def clearComposioClient_def)

lemma get_no_key:
  "resolveApiKey env config = None \<Longrightarrow> getComposioClient env config m = (None, m)"
  by (simp add: getComposioClient_def)

lemma get_state:
  assumes "resolveApiKey env config = Some key"
  shows "cachedClient (snd (getComposioClient env config m)) = fst (getComposioClient env config m)
       \<and> fst (getComposioClient env config m) \<noteq> None
       \<and> cachedApiKey (snd (getComposioClient env config m)) = Some key
       \<and> cachedBaseUrl (snd (getComposioClient env config m)) = resolveBaseUrl env config"
  using assms by (auto simp: getComposioClient_def Let_def)

lemma get_hit:
  assumes "resolveApiKey env config = Some key" "cachedClient m \<noteq> None"
    "cachedApiKey m = Some key" "cachedBaseUrl m = resolveBaseUrl env config"
  shows "getComposioClient env config m = (cachedClient m, m)"
  using assms by (simp add: getComposioClient_def)

lemma get_miss:
  assumes "resolveApiKey env config = Some key"
    "cachedClient m = None \<or> cachedApiKey m \<noteq> Some key \<or> cachedBaseUrl m \<noteq> resolveBaseUrl env config"
  shows "getComposioClient env config m =
     (Some (new_Composio key (resolveBaseUrl env config) m),
      \<lparr>cachedClient = Some (new_Composio key (resolveBaseUrl env config) m),
       cachedApiKey = Some key, cachedBaseUrl = resolveBaseUrl env config,
       constructed = Suc (constructed m)\<rparr>)"
  using assms by (auto simp: getComposioClient_def Let_def)

text \<open>
  C8. \<open>getComposioClient\<close> returns \<open>null\<close> (here \<open>None\<close>), not an error, whenever no API
  key resolves from the configuration or the environment, and leaves the cache as it is.
  When a key resolves, the call returns a client; a call after it that resolves to the same
  key and base URL returns the same client object and changes nothing; a call after it that
  resolves to a different pair constructs a new object, which replaces the cache; and after
  \<open>clearComposioClient\<close> the next call constructs a new object. Where the cache holds only
  objects constructed earlier (\<open>cache_wf\<close>), the new object is not the one handed out
  before.
\<close>

theorem getComposioClient_cache:
  "(resolveApiKey env config = None \<longrightarrow> getComposioClient env config m = (None, m))
 \<and> (resolveApiKey env config = Some key \<longrightarrow>
      (let (r1, m1) = getComposioClient env config m;
           (r2, m2) = getComposioClient env2 config2 m1;
           url2 = resolveBaseUrl env2 config2
       in r1 \<noteq> None
        \<and> (resolveApiKey env2 config2 = Some key \<and> url2 = resolveBaseUrl env config
             \<longrightarrow> r2 = r1 \<and> m2 = m1)
        \<and> (resolveApiKey env2 config2 = Some key2
             \<and> (key2 \<noteq> key \<or> url2 \<noteq> resolveBaseUrl env config)
             \<longrightarrow> r2 = Some (new_Composio key2 url2 m1)
               \<and> m2 = \<lparr>cachedClient = r2, cachedApiKey = Some key2, cachedBaseUrl = url2,
                        constructed = Suc (constructed m1)\<rparr>
               \<and> (cache_wf m \<longrightarrow> r2 \<noteq> r1))))
 \<and> (resolveApiKey env config = Some key \<longrightarrow>
      (let (r, m') = getComposioClient env config (clearComposioClient m)
       in r = Some (new_Composio key (resolveBaseUrl env config) m)
        \<and> cachedClient m' = r \<and> constructed m' = Suc (constructed m)
        \<and> (cache_wf m \<longrightarrow> r \<noteq> cachedClient m)))"
proof (intro conjI impI)
  show "getComposioClient env config m = (None, m)" if "resolveApiKey env config = None"
    using that by (rule get_no_key)
next
  assume k: "resolveApiKey env config = Some key"
  obtain r1 m1 where g1: "getComposioClient env config m = (r1, m1)" by (cases "getComposioClient env config m")
  obtain r2 m2 where g2: "getComposioClient env2 config2 m1 = (r2, m2)" by (cases "getComposioClient env2 config2 m1")
  from get_state[OF k, of m] g1
  have s1: "cachedClient m1 = r1" "r1 \<noteq> None" "cachedApiKey m1 = Some key"
    "cachedBaseUrl m1 = resolveBaseUrl env config" by simp_all
  have hit: "r2 = r1 \<and> m2 = m1"
    if "resolveApiKey env2 config2 = Some key \<and> resolveBaseUrl env2 config2 = resolveBaseUrl env config"
    using get_hit[of env2 config2 key m1] that s1 g2 by simp
  have wf1: "cache_wf m1" if "cache_wf m" using cache_wf_get[OF that, of env config] g1 by simp
  have miss: "r2 = Some (new_Composio key2 (resolveBaseUrl env2 config2) m1)
               \<and> m2 = \<lparr>cachedClient = r2, cachedApiKey = Some key2, cachedBaseUrl = resolveBaseUrl env2 config2,
                        constructed = Suc (constructed m1)\<rparr>
               \<and> (cache_wf m \<longrightarrow> r2 \<noteq> r1)"
    if h: "resolveApiKey env2 config2 = Some key2
             \<and> (key2 \<noteq> key \<or> resolveBaseUrl env2 config2 \<noteq> resolveBaseUrl env config)"
  proof -
    from h have "cachedClient m1 = None \<or> cachedApiKey m1 \<noteq> Some key2 \<or> cachedBaseUrl m1 \<noteq> resolveBaseUrl env2 config2"
      using s1 by auto
    with get_miss[of env2 config2 key2 m1] h g2
    have e: "r2 = Some (new_Composio key2 (resolveBaseUrl env2 config2) m1)"
      "m2 = \<lparr>cachedClient = r2, cachedApiKey = Some key2, cachedBaseUrl = resolveBaseUrl env2 config2,
                        constructed = Suc (constructed m1)\<rparr>" by simp_all
    have "r2 \<noteq> r1" if "cache_wf m"
      using wf1[OF that] s1 e(1) by (auto simp: cache_wf_def new_Composio_def)
    with e show ?thesis by blast
  qed
  show "(let (r1, m1) = getComposioClient env config m;
           (r2, m2) = getComposioClient env2 config2 m1;
           url2 = resolveBaseUrl env2 config2
       in r1 \<noteq> None
        \<and> (resolveApiKey env2 config2 = Some key \<and> url2 = resolveBaseUrl env config
             \<longrightarrow> r2 = r1 \<and> m2 = m1)
        \<and> (resolveApiKey env2 config2 = Some key2
             \<and> (key2 \<noteq> key \<or> url2 \<noteq> resolveBaseUrl env config)
             \<longrightarrow> r2 = Some (new_Composio key2 url2 m1)
               \<and> m2 = \<lparr>cachedClient = r2, cachedApiKey = Some key2, cachedBaseUrl = url2,
                        constructed = Suc (constructed m1)\<rparr>
               \<and> (cache_wf m \<longrightarrow> r2 \<noteq> r1)))"
    unfolding g1 g2 Let_def prod.case using s1(2) hit miss by blast
next
  assume k: "resolveApiKey env config = Some key"
  have c: "cachedClient (clearComposioClient m) = None" "constructed (clearComposioClient m) = constructed m"
    by (simp_all add: clearComposioClient_def)
  have n: "new_Composio key u (clearComposioClient m) = new_Composio key u m" for u
    by (simp add: new_Composio_def c)
  have "r \<noteq> cachedClient m" if "cache_wf m" "r = Some (new_Composio key (resolveBaseUrl env config) m)" for r
    using that by (cases "cachedClient m") (auto simp: cache_wf_def new_Composio_def)
  then show "(let (r, m') = getComposioClient env config (clearComposioClient m)
       in r = Some (new_Composio key (resolveBaseUrl env config) m)
        \<and> cachedClient m' = r \<and> constructed m' = Suc (constructed m)
        \<and> (cache_wf m \<longrightarrow> r \<noteq> cachedClient m))"
    using get_miss[OF k, of "clearComposioClient m"] c n by simp
qed

lemma example_keys:
  "resolveApiKey example_env None = Some ''key-1''"
  "resolveApiKey other_env None = Some ''key-2''"
  "resolveApiKey empty_env None = None"
  "resolveBaseUrl example_env None = None"
  "resolveBaseUrl other_env None = None"
  by (simp_all add: resolveApiKey_def resolveBaseUrl_def example_env_def other_env_def empty_env_def
        js_or_def truthy_def trim_def js_space_def)

text \<open>The adapter on a process without a key, with a key, and with another key.\<close>

theorem getComposioClient_cache_witness:
  "resolveApiKey empty_env None = None
   \<and> getComposioClient empty_env None initial_module = (None, initial_module)
   \<and> resolveApiKey example_env None = Some ''key-1''
   \<and> resolveApiKey other_env None = Some ''key-2''
   \<and> cache_wf initial_module
   \<and> (let (r1, m1) = getComposioClient example_env None initial_module;
           (r2, m2) = getComposioClient example_env None m1;
           (r3, m3) = getComposioClient other_env None m1;
           (r4, m4) = getComposioClient example_env None (clearComposioClient initial_module)
       in r1 \<noteq> None \<and> r2 = r1 \<and> m2 = m1 \<and> r3 \<noteq> r1 \<and> cachedClient m3 = r3
          \<and> constructed m3 = Suc (constructed m1) \<and> cachedClient m4 = r4
          \<and> constructed m4 = Suc (constructed initial_module))"
  using getComposioClient_cache[of empty_env None initial_module "''key-1''" example_env None "''key-2''"]
        getComposioClient_cache[of example_env None initial_module "''key-1''" example_env None "''key-2''"]
        getComposioClient_cache[of example_env None initial_module "''key-1''" other_env None "''key-2''"]
        cache_wf_initial
  by (simp add: example_keys Let_def case_prod_beta getComposioClient_def new_Composio_def
        initial_module_def clearComposioClient_def cache_wf_def)

section \<open>Properties of the agent tool\<close>

lemma execute_with_client:
  assumes "arg_action args = Some action"
    and "getComposioClient env (composioConfig opts) (client_mod st) = (Some client, m)"
  shows "execute br env opts args st =
     (let entityId = resolve_entity args opts; st0 = st\<lparr>client_mod := m\<rparr>
      in if action = ''list_connections'' then list_connections_case br client entityId st0
         else if action = ''connect'' then connect_case br client entityId args st0
         else if action = ''connect_multiple''
           then connect_multiple_case br (composioConfig opts) client entityId args st0
         else if action = ''status'' then status_case br client args st0
         else if action = ''disconnect'' then disconnect_case br client args st0
         else if action = ''execute'' then execute_case br client entityId args st0
         else (Inl (Error (''Unknown composio action: '' @ action)), st0))"
  using assms by (simp add: execute_def Let_def)

lemma execute_no_client:
  assumes "arg_action args = Some action"
    and "resolveApiKey env (composioConfig opts) = None"
  shows "execute br env opts args st =
     (Inl (Error ''Composio is not configured. Set COMPOSIO_API_KEY or configure composio.apiKey.''), st)"
  using assms by (simp add: execute_def getComposioClient_def)

lemma get_client_cases:
  "(resolveApiKey env config = None \<and> getComposioClient env config m = (None, m))
   \<or> (\<exists>client m'. getComposioClient env config m = (Some client, m'))"
  by (auto simp: getComposioClient_def Let_def split: option.splits)

lemma get_client_some:
  "resolveApiKey env config = Some key \<Longrightarrow> \<exists>client m'. getComposioClient env config m = (Some client, m')"
  by (auto simp: getComposioClient_def Let_def split: option.splits)

lemma connect_one_eq:
  "initiate br client (request_for entityId redirectUri name) (broker_state st) = (reply, b) \<Longrightarrow>
   connect_one br client entityId redirectUri name st =
     (item_of name reply,
      st\<lparr>broker_state := b, calls := calls st @ [Initiate (request_for entityId redirectUri name)]\<rparr>)"
  by (cases reply)
     (simp_all add: connect_one_def initiateConnection_def issue_def request_for_def item_of_def Let_def)

lemma connect_each_items:
  "fst (connect_each br client entityId redirectUri names st) =
     map2 item_of names
       (broker_replies br client (map (request_for entityId redirectUri) names) (broker_state st))"
proof (induction names arbitrary: st)
  case Nil
  show ?case by simp
next
  case (Cons name names)
  obtain reply b where r: "initiate br client (request_for entityId redirectUri name) (broker_state st) = (reply, b)"
    by (cases "initiate br client (request_for entityId redirectUri name) (broker_state st)")
  show ?case
    using Cons.IH[of "st\<lparr>broker_state := b, calls := calls st @ [Initiate (request_for entityId redirectUri name)]\<rparr>"]
    by (simp add: connect_one_eq[OF r] r case_prod_beta Let_def)
qed

lemma connect_each_calls:
  "calls (snd (connect_each br client entityId redirectUri names st)) =
     calls st @ map (\<lambda>n. Initiate (request_for entityId redirectUri n)) names
   \<and> client_mod (snd (connect_each br client entityId redirectUri names st)) = client_mod st"
proof (induction names arbitrary: st)
  case Nil
  show ?case by simp
next
  case (Cons name names)
  obtain reply b where r: "initiate br client (request_for entityId redirectUri name) (broker_state st) = (reply, b)"
    by (cases "initiate br client (request_for entityId redirectUri name) (broker_state st)")
  show ?case
    using Cons.IH[of "st\<lparr>broker_state := b, calls := calls st @ [Initiate (request_for entityId redirectUri name)]\<rparr>"]
    by (simp add: connect_one_eq[OF r] case_prod_beta Let_def)
qed

lemma broker_replies_length: "length (broker_replies br client rs b) = length rs"
  by (induction rs arbitrary: b) (auto simp: case_prod_beta Let_def)

lemma connect_multiple_case_reject:
  assumes "arg_appNames args = Some names"
    and "names = [] \<or> int (length names) > maxAccounts config"
  shows "connect_multiple_case br config client entityId args st =
     (Inl (Error (if names = [] then ''appNames required for connect_multiple''
                  else ''Cannot connect more than ''
                       @ string_of_int (maxAccounts config)
                       @ '' services at once'')), st)"
  using assms by (auto simp: connect_multiple_case_def Let_def)

text \<open>
  C3. When \<open>appNames\<close> is empty or longer than the cap (\<open>maxAccountsPerUser\<close>, 20 when it
  is not configured), \<open>connect_multiple\<close> ends in an error and no broker call is issued:
  the calls issued and the broker's state are what they were. With a client at hand the
  error is the one of the empty list or the one of the cap.
\<close>

theorem connect_multiple_rejects_batch:
  assumes "arg_action args = Some ''connect_multiple''"
    and "arg_appNames args = Some names"
    and "names = [] \<or> int (length names) > maxAccounts (composioConfig opts)"
  shows "(\<exists>e. fst (execute br env opts args st) = Inl e)
       \<and> (resolveApiKey env (composioConfig opts) \<noteq> None \<longrightarrow>
            fst (execute br env opts args st) =
              Inl (Error (if names = [] then ''appNames required for connect_multiple''
                          else ''Cannot connect more than '' @ string_of_int (maxAccounts (composioConfig opts))
                               @ '' services at once'')))
       \<and> calls (snd (execute br env opts args st)) = calls st
       \<and> broker_state (snd (execute br env opts args st)) = broker_state st"
proof -
  consider (none) "resolveApiKey env (composioConfig opts) = None"
    | (some) client m where "getComposioClient env (composioConfig opts) (client_mod st) = (Some client, m)"
        "resolveApiKey env (composioConfig opts) \<noteq> None"
    using get_client_cases[of env "composioConfig opts" "client_mod st"]
    by (auto simp: getComposioClient_def)
  then show ?thesis
  proof cases
    case none
    then show ?thesis by (simp add: execute_no_client[OF assms(1) none])
  next
    case some
    have e: "execute br env opts args st =
        connect_multiple_case br (composioConfig opts) client (resolve_entity args opts) args
          (st\<lparr>client_mod := m\<rparr>)"
      using execute_with_client[OF assms(1) some(1), of br] by (simp add: Let_def)
    have r: "connect_multiple_case br (composioConfig opts) client (resolve_entity args opts) args
          (st\<lparr>client_mod := m\<rparr>) =
        (Inl (Error (if names = [] then ''appNames required for connect_multiple''
                  else ''Cannot connect more than '' @ string_of_int (maxAccounts (composioConfig opts))
                       @ '' services at once'')), st\<lparr>client_mod := m\<rparr>)"
      using connect_multiple_case_reject[OF assms(2), of "composioConfig opts"] assms(3)
      by blast
    show ?thesis unfolding e r by simp
  qed
qed

lemma string_of_int_20: "string_of_int 20 = ''20''"
  by (simp add: string_of_int_def string_of_nat.simps[of 20] string_of_nat.simps[of 2])

lemma maxAccounts_default: "maxAccounts None = 20"
  by (simp add: maxAccounts_def)

text \<open>A batch of 21 names under the default cap of 20, and an empty batch.\<close>

theorem connect_multiple_rejects_batch_witness:
  "arg_action (no_args\<lparr>arg_action := Some ''connect_multiple'',
                       arg_appNames := Some (replicate 21 ''gmail'')\<rparr>) = Some ''connect_multiple''
   \<and> int (length (replicate 21 ''gmail'')) > maxAccounts (composioConfig example_opts)
   \<and> fst (execute example_broker example_env example_opts
            (no_args\<lparr>arg_action := Some ''connect_multiple'',
                     arg_appNames := Some (replicate 21 ''gmail'')\<rparr>) example_state)
       = Inl (Error ''Cannot connect more than 20 services at once'')
   \<and> calls (snd (execute example_broker example_env example_opts
            (no_args\<lparr>arg_action := Some ''connect_multiple'',
                     arg_appNames := Some (replicate 21 ''gmail'')\<rparr>) example_state)) = []
   \<and> fst (execute example_broker example_env example_opts
            (no_args\<lparr>arg_action := Some ''connect_multiple'', arg_appNames := Some []\<rparr>)
            example_state)
       = Inl (Error ''appNames required for connect_multiple'')"
  using connect_multiple_rejects_batch[of
          "no_args\<lparr>arg_action := Some ''connect_multiple'',
                    arg_appNames := Some (replicate 21 ''gmail'')\<rparr>"
          "replicate 21 ''gmail''" example_opts example_broker example_env example_state]
        connect_multiple_rejects_batch[of
          "no_args\<lparr>arg_action := Some ''connect_multiple'', arg_appNames := Some []\<rparr>"
          "[]" example_opts example_broker example_env example_state]
  by (simp add: no_args_def example_opts_def example_keys maxAccounts_default string_of_int_20
        example_state_def)

lemma connect_multiple_case_names:
  "connect_multiple_case br config client entityId args st =
     (case (case arg_appNames args of
              Some names \<Rightarrow> Some names
            | None \<Rightarrow> (case arg_appName args of
                         Some name \<Rightarrow> (if name \<noteq> [] then Some [name] else None)
                       | None \<Rightarrow> None)) of
        None \<Rightarrow> (Inl (Error ''appNames required for connect_multiple''), st)
      | Some names \<Rightarrow>
          if names = [] then (Inl (Error ''appNames required for connect_multiple''), st)
          else if int (length names) > maxAccounts config
          then (Inl (Error (''Cannot connect more than '' @ string_of_int (maxAccounts config)
                              @ '' services at once'')), st)
          else (Inr (ConnectMultiple
                       (fst (connect_each br client entityId (arg_redirectUri args) names st))
                 ''Send the following auth links to the user. They should click each one to authorize the service:''),
                snd (connect_each br client entityId (arg_redirectUri args) names st)))"
  by (simp add: connect_multiple_case_def Let_def case_prod_beta split: option.splits)

lemma connect_multiple_case_required_iff:
  "fst (connect_multiple_case br config client entityId args st)
     = Inl (Error ''appNames required for connect_multiple'')
   \<longleftrightarrow> arg_appNames args = Some []
       \<or> (arg_appNames args = None \<and> (arg_appName args = None \<or> arg_appName args = Some []))"
  by (auto simp: connect_multiple_case_names split: option.splits)

lemma connect_multiple_case_single:
  assumes "arg_appNames args = None" "arg_appName args = Some name" "name \<noteq> []"
  shows "connect_multiple_case br config client entityId args st =
         connect_multiple_case br config client entityId (args\<lparr>arg_appNames := Some [name]\<rparr>) st"
  using assms by (simp add: connect_multiple_case_names)

text \<open>
  C10, as the code has it. When \<open>appNames\<close> is omitted and the \<open>appName\<close> read is a
  non-empty string, \<open>connect_multiple\<close> does what it does for the batch of that one name.
  It fails with the error \<open>appNames required for connect_multiple\<close> exactly when
  \<open>appNames\<close> is empty, or \<open>appNames\<close> is omitted and \<open>appName\<close> is absent or the empty
  string.
\<close>

theorem connect_multiple_single_name:
  assumes "arg_action args = Some ''connect_multiple''"
    and "resolveApiKey env (composioConfig opts) = Some key"
  shows "(arg_appNames args = None \<and> arg_appName args = Some name \<and> name \<noteq> [] \<longrightarrow>
            execute br env opts args st
              = execute br env opts (args\<lparr>arg_appNames := Some [name]\<rparr>) st)
       \<and> (fst (execute br env opts args st) = Inl (Error ''appNames required for connect_multiple'')
            \<longleftrightarrow> arg_appNames args = Some []
                \<or> (arg_appNames args = None
                    \<and> (arg_appName args = None \<or> arg_appName args = Some [])))"
proof -
  obtain client m where c: "getComposioClient env (composioConfig opts) (client_mod st) = (Some client, m)"
    using get_client_some[OF assms(2)] by blast
  have e: "execute br env opts a st =
        connect_multiple_case br (composioConfig opts) client (resolve_entity a opts) a
          (st\<lparr>client_mod := m\<rparr>)" if "arg_action a = Some ''connect_multiple''" for a
    using execute_with_client[OF that c, of br] by (simp add: Let_def)
  have r: "resolve_entity (args\<lparr>arg_appNames := Some [name]\<rparr>) opts = resolve_entity args opts"
    by (simp add: resolve_entity_def)
  show ?thesis
    using connect_multiple_case_single[of args name br "composioConfig opts" client
            "resolve_entity args opts" "st\<lparr>client_mod := m\<rparr>"]
          connect_multiple_case_required_iff[of br "composioConfig opts" client
            "resolve_entity args opts" args "st\<lparr>client_mod := m\<rparr>"]
    by (simp add: e assms(1) r)
qed

text \<open>
  An \<open>appName\<close> that is present but empty, with \<open>appNames\<close> omitted: the call fails with
  the error of the missing \<open>appNames\<close>.
\<close>

theorem connect_multiple_empty_name_counterexample:
  "arg_appNames (no_args\<lparr>arg_action := Some ''connect_multiple'', arg_appName := Some []\<rparr>) = None
   \<and> arg_appName (no_args\<lparr>arg_action := Some ''connect_multiple'', arg_appName := Some []\<rparr>) \<noteq> None
   \<and> fst (execute example_broker example_env example_opts
            (no_args\<lparr>arg_action := Some ''connect_multiple'', arg_appName := Some []\<rparr>)
            example_state)
       = Inl (Error ''appNames required for connect_multiple'')"
  by (simp add: no_args_def execute_def example_opts_def example_keys getComposioClient_def
        example_state_def initial_module_def Let_def connect_multiple_case_def)

text \<open>The single name \<open>gmail\<close>, and a call with neither parameter.\<close>

theorem connect_multiple_single_name_witness:
  "arg_action (no_args\<lparr>arg_action := Some ''connect_multiple'', arg_appName := Some ''gmail''\<rparr>)
     = Some ''connect_multiple''
   \<and> resolveApiKey example_env (composioConfig example_opts) = Some ''key-1''
   \<and> execute example_broker example_env example_opts
        (no_args\<lparr>arg_action := Some ''connect_multiple'', arg_appName := Some ''gmail''\<rparr>)
        example_state
      = execute example_broker example_env example_opts
        (no_args\<lparr>arg_action := Some ''connect_multiple'', arg_appName := Some ''gmail'',
                 arg_appNames := Some [''gmail'']\<rparr>)
        example_state
   \<and> fst (execute example_broker example_env example_opts
        (no_args\<lparr>arg_action := Some ''connect_multiple'', arg_appName := Some ''gmail''\<rparr>)
        example_state) \<noteq> Inl (Error ''appNames required for connect_multiple'')
   \<and> fst (execute example_broker example_env example_opts
        (no_args\<lparr>arg_action := Some ''connect_multiple''\<rparr>)
        example_state) = Inl (Error ''appNames required for connect_multiple'')"
  using connect_multiple_single_name[of
          "no_args\<lparr>arg_action := Some ''connect_multiple'', arg_appName := Some ''gmail''\<rparr>"
          example_env example_opts "''key-1''" "''gmail''" example_broker example_state]
        connect_multiple_single_name[of
          "no_args\<lparr>arg_action := Some ''connect_multiple''\<rparr>"
          example_env example_opts "''key-1''" "''gmail''" example_broker example_state]
  by (auto simp add: no_args_def example_opts_def example_keys)

lemma item_of_fields:
  "item_appName (item_of name reply) = toUpperCase name"
  "item_error (item_of name reply) = (case reply of Inl err \<Rightarrow> Some err | Inr cr \<Rightarrow> None)"
  "item_connectedAccountId (item_of name reply)
     = (case reply of Inl err \<Rightarrow> None | Inr cr \<Rightarrow> Some (cr_connectedAccountId cr))"
  "item_redirectUrl (item_of name reply)
     = (case reply of
          Inl err \<Rightarrow> None
        | Inr cr \<Rightarrow> Some (case cr_redirectUrl cr of None \<Rightarrow> [] | Some u \<Rightarrow> u))"
  by (simp_all add: item_of_def split: sum.splits)

lemma connect_each_nth:
  assumes "i < length names"
  shows "fst (connect_each br client entityId redirectUri names st) ! i =
         item_of (names ! i)
           (broker_replies br client (map (request_for entityId redirectUri) names)
              (broker_state st) ! i)"
  using assms by (simp add: connect_each_items broker_replies_length)

lemma connect_each_length:
  "length (fst (connect_each br client entityId redirectUri names st)) = length names"
  by (simp add: connect_each_items broker_replies_length)

text \<open>
  C1. For a non-empty list \<open>appNames\<close> within the cap, \<open>connect_multiple\<close> returns one
  item for each name, in the order of the names, and issues one initiation for each name,
  in that order. The item at position \<open>i\<close> carries the upper-cased name at position \<open>i\<close>
  and is shaped by the broker's reply to the initiation at position \<open>i\<close> alone: the account
  identifier and the redirect URL with \<open>error: null\<close> when the initiation succeeds, and
  \<open>connectedAccountId: null\<close>, \<open>redirectUrl: null\<close> and the error's message when it
  throws. So when the initiation at position \<open>k\<close> is the only one that fails, the item at
  position \<open>k\<close> is the only one with an error, and the only one without an account
  identifier.
\<close>

theorem connect_multiple_results:
  assumes "arg_action args = Some ''connect_multiple''"
    and "arg_appNames args = Some names"
    and "names \<noteq> []"
    and "int (length names) \<le> maxAccounts (composioConfig opts)"
    and "getComposioClient env (composioConfig opts) (client_mod st) = (Some client, m)"
  shows "\<exists>items msg.
      fst (execute br env opts args st) = Inr (ConnectMultiple items msg)
    \<and> length items = length names
    \<and> calls (snd (execute br env opts args st))
        = calls st @ map (\<lambda>n. Initiate (request_for (resolve_entity args opts) (arg_redirectUri args) n)) names
    \<and> (let replies =
              broker_replies br client
                (map (request_for (resolve_entity args opts) (arg_redirectUri args)) names)
                (broker_state st)
       in (\<forall>i<length names.
             item_appName (items ! i) = toUpperCase (names ! i)
           \<and> (case replies ! i of
                Inr cr \<Rightarrow>
                  item_connectedAccountId (items ! i) = Some (cr_connectedAccountId cr)
                  \<and> item_redirectUrl (items ! i)
                      = Some (case cr_redirectUrl cr of None \<Rightarrow> [] | Some u \<Rightarrow> u)
                  \<and> item_error (items ! i) = None
              | Inl err \<Rightarrow>
                  item_connectedAccountId (items ! i) = None
                  \<and> item_redirectUrl (items ! i) = None
                  \<and> item_error (items ! i) = Some err))
        \<and> (\<forall>k<length names.
              (\<forall>i<length names. isl (replies ! i) \<longleftrightarrow> i = k) \<longrightarrow>
              (\<forall>i<length names.
                 (item_error (items ! i) \<noteq> None \<longleftrightarrow> i = k)
               \<and> (item_connectedAccountId (items ! i) = None \<longleftrightarrow> i = k))))"
proof -
  let ?e = "resolve_entity args opts"
  let ?r = "arg_redirectUri args"
  let ?st = "st\<lparr>client_mod := m\<rparr>"
  let ?items = "fst (connect_each br client ?e ?r names ?st)"
  let ?replies = "broker_replies br client (map (request_for ?e ?r) names) (broker_state st)"
  have e: "execute br env opts args st =
        connect_multiple_case br (composioConfig opts) client ?e args ?st"
    using execute_with_client[OF assms(1) assms(5), of br] by (simp add: Let_def)
  have c: "connect_multiple_case br (composioConfig opts) client ?e args ?st =
        (Inr (ConnectMultiple ?items
           ''Send the following auth links to the user. They should click each one to authorize the service:''),
         snd (connect_each br client ?e ?r names ?st))"
    using assms(2,3,4) by (simp add: connect_multiple_case_names)
  have len: "length ?items = length names" by (rule connect_each_length)
  have cl: "calls (snd (connect_each br client ?e ?r names ?st))
        = calls st @ map (\<lambda>n. Initiate (request_for ?e ?r n)) names"
    using connect_each_calls[of br client ?e ?r names ?st] by simp
  have nth: "?items ! i = item_of (names ! i) (?replies ! i)" if "i < length names" for i
    using connect_each_nth[OF that, of br client ?e ?r ?st] by simp
  have shape: "item_appName (?items ! i) = toUpperCase (names ! i)
           \<and> (case ?replies ! i of
                Inr cr \<Rightarrow>
                  item_connectedAccountId (?items ! i) = Some (cr_connectedAccountId cr)
                  \<and> item_redirectUrl (?items ! i)
                      = Some (case cr_redirectUrl cr of None \<Rightarrow> [] | Some u \<Rightarrow> u)
                  \<and> item_error (?items ! i) = None
              | Inl err \<Rightarrow>
                  item_connectedAccountId (?items ! i) = None
                  \<and> item_redirectUrl (?items ! i) = None
                  \<and> item_error (?items ! i) = Some err)" if "i < length names" for i
    by (simp add: nth[OF that] item_of_fields split: sum.splits)
  have only: "(item_error (?items ! i) \<noteq> None \<longleftrightarrow> i = k)
               \<and> (item_connectedAccountId (?items ! i) = None \<longleftrightarrow> i = k)"
    if "\<forall>i<length names. isl (?replies ! i) \<longleftrightarrow> i = k" "i < length names" for i k
  proof -
    from that have k: "isl (?replies ! i) \<longleftrightarrow> i = k" by blast
    show ?thesis
      unfolding nth[OF that(2)] item_of_fields
      using k by (cases "?replies ! i") simp_all
  qed
  have A: "\<forall>i<length names.
             item_appName (?items ! i) = toUpperCase (names ! i)
           \<and> (case ?replies ! i of
                Inr cr \<Rightarrow>
                  item_connectedAccountId (?items ! i) = Some (cr_connectedAccountId cr)
                  \<and> item_redirectUrl (?items ! i)
                      = Some (case cr_redirectUrl cr of None \<Rightarrow> [] | Some u \<Rightarrow> u)
                  \<and> item_error (?items ! i) = None
              | Inl err \<Rightarrow>
                  item_connectedAccountId (?items ! i) = None
                  \<and> item_redirectUrl (?items ! i) = None
                  \<and> item_error (?items ! i) = Some err)"
    using shape by (intro allI impI)
  have B: "\<forall>k<length names.
              (\<forall>i<length names. isl (?replies ! i) \<longleftrightarrow> i = k) \<longrightarrow>
              (\<forall>i<length names.
                 (item_error (?items ! i) \<noteq> None \<longleftrightarrow> i = k)
               \<and> (item_connectedAccountId (?items ! i) = None \<longleftrightarrow> i = k))"
    using only by (intro allI impI)
  from len cl A B show ?thesis
    unfolding e c fst_conv snd_conv Let_def
    by (intro exI[of _ ?items]
          exI[of _ "''Send the following auth links to the user. They should click each one to authorize the service:''"]
          conjI)
       (rule refl | assumption)+
qed

lemma example_get_client:
  "getComposioClient example_env (composioConfig example_opts) (client_mod example_state)
     = (Some example_client, example_module)"
  by (simp add: getComposioClient_def example_keys example_opts_def example_state_def
        initial_module_def new_Composio_def example_client_def example_module_def Let_def)

lemma toUpperCase_examples:
  "toUpperCase ''gmail'' = ''GMAIL''"
  "toUpperCase ''slack'' = ''SLACK''"
  "toUpperCase ''github'' = ''GITHUB''"
  by (simp_all add: toUpperCase_def toUpperChar_def)

lemma three_apps_run:
  "fst (execute example_broker example_env example_opts three_apps example_state) =
     Inr (ConnectMultiple
       [\<lparr>item_appName = ''GMAIL'', item_connectedAccountId = Some ''acc-GMAIL'',
         item_redirectUrl = Some ''https://broker.example/GMAIL'',
         item_authUrl = Some ''https://broker.example/GMAIL'', item_error = None\<rparr>,
        \<lparr>item_appName = ''SLACK'', item_connectedAccountId = None,
         item_redirectUrl = None, item_authUrl = None,
         item_error = Some ''Error: app not found''\<rparr>,
        \<lparr>item_appName = ''GITHUB'', item_connectedAccountId = Some ''acc-GITHUB'',
         item_redirectUrl = Some ''https://broker.example/GITHUB'',
         item_authUrl = Some ''https://broker.example/GITHUB'', item_error = None\<rparr>]
       ''Send the following auth links to the user. They should click each one to authorize the service:'')"
proof -
  have a: "arg_action three_apps = Some ''connect_multiple''"
    by (simp add: three_apps_def no_args_def)
  have e: "execute example_broker example_env example_opts three_apps example_state =
      connect_multiple_case example_broker (composioConfig example_opts) example_client
        (resolve_entity three_apps example_opts) three_apps
        (example_state\<lparr>client_mod := example_module\<rparr>)"
    using execute_with_client[OF a example_get_client, of example_broker] by (simp add: Let_def)
  show ?thesis
    unfolding e
    by (simp add: three_apps_def no_args_def
        connect_multiple_case_names maxAccounts_default example_opts_def
        connect_one_def initiateConnection_def issue_def example_broker_def
        toUpperCase_examples example_state_def resolve_entity_def Let_def)
qed

text \<open>Three names, of which the broker refuses the second.\<close>

theorem connect_multiple_results_witness:
  "arg_action three_apps = Some ''connect_multiple''
   \<and> arg_appNames three_apps = Some [''gmail'', ''slack'', ''github'']
   \<and> int (length [''gmail'', ''slack'', ''github'']) \<le> maxAccounts (composioConfig example_opts)
   \<and> getComposioClient example_env (composioConfig example_opts) (client_mod example_state)
        = (Some example_client, example_module)
   \<and> (\<exists>items msg.
         fst (execute example_broker example_env example_opts three_apps example_state)
           = Inr (ConnectMultiple items msg)
       \<and> length items = 3
       \<and> map item_appName items = [''GMAIL'', ''SLACK'', ''GITHUB'']
       \<and> map item_error items = [None, Some ''Error: app not found'', None]
       \<and> map item_connectedAccountId items = [Some ''acc-GMAIL'', None, Some ''acc-GITHUB''])
   \<and> calls (snd (execute example_broker example_env example_opts three_apps example_state))
        = [Initiate (request_for ''default'' None ''gmail''),
           Initiate (request_for ''default'' None ''slack''),
           Initiate (request_for ''default'' None ''github'')]"
proof -
  have h1: "arg_action three_apps = Some ''connect_multiple''"
    and h2: "arg_appNames three_apps = Some [''gmail'', ''slack'', ''github'']"
    and h3: "[''gmail'', ''slack'', ''github''] \<noteq> []"
    and h4: "int (length [''gmail'', ''slack'', ''github'']) \<le> maxAccounts (composioConfig example_opts)"
    by (simp_all add: three_apps_def no_args_def example_opts_def maxAccounts_default)
  from connect_multiple_results[OF h1 h2 h3 h4 example_get_client, of example_broker]
  obtain items msg where
    r: "fst (execute example_broker example_env example_opts three_apps example_state)
          = Inr (ConnectMultiple items msg)"
    and l: "length items = length [''gmail'', ''slack'', ''github'']"
    and c: "calls (snd (execute example_broker example_env example_opts three_apps example_state))
        = calls example_state @ map (\<lambda>n. Initiate (request_for (resolve_entity three_apps example_opts)
             (arg_redirectUri three_apps) n)) [''gmail'', ''slack'', ''github'']"
    by blast
  from r three_apps_run have items: "items =
       [\<lparr>item_appName = ''GMAIL'', item_connectedAccountId = Some ''acc-GMAIL'',
         item_redirectUrl = Some ''https://broker.example/GMAIL'',
         item_authUrl = Some ''https://broker.example/GMAIL'', item_error = None\<rparr>,
        \<lparr>item_appName = ''SLACK'', item_connectedAccountId = None,
         item_redirectUrl = None, item_authUrl = None,
         item_error = Some ''Error: app not found''\<rparr>,
        \<lparr>item_appName = ''GITHUB'', item_connectedAccountId = Some ''acc-GITHUB'',
         item_redirectUrl = Some ''https://broker.example/GITHUB'',
         item_authUrl = Some ''https://broker.example/GITHUB'', item_error = None\<rparr>]"
    by simp
  have c': "calls (snd (execute example_broker example_env example_opts three_apps example_state))
        = [Initiate (request_for ''default'' None ''gmail''),
           Initiate (request_for ''default'' None ''slack''),
           Initiate (request_for ''default'' None ''github'')]"
    using c by (simp add: example_state_def resolve_entity_def three_apps_def no_args_def
                  example_opts_def)
  have "\<exists>items msg.
         fst (execute example_broker example_env example_opts three_apps example_state)
           = Inr (ConnectMultiple items msg)
       \<and> length items = 3
       \<and> map item_appName items = [''GMAIL'', ''SLACK'', ''GITHUB'']
       \<and> map item_error items = [None, Some ''Error: app not found'', None]
       \<and> map item_connectedAccountId items = [Some ''acc-GMAIL'', None, Some ''acc-GITHUB'']"
    using r l by (intro exI[of _ items] exI[of _ msg]) (simp add: items)
  with h1 h2 h4 example_get_client c' show ?thesis by blast
qed

lemma connect_case_run:
  assumes "arg_appName args = Some appName"
    and "initiate br client (request_for entityId (arg_redirectUri args) appName) (broker_state st)
           = (reply, b)"
  shows "connect_case br client entityId args st =
     ((case reply of
         Inl err \<Rightarrow> Inl (Rethrown err)
       | Inr cr \<Rightarrow>
           Inr (Connect
             \<lparr>cp_connectedAccountId = cr_connectedAccountId cr,
              cp_redirectUrl = (case cr_redirectUrl cr of None \<Rightarrow> [] | Some u \<Rightarrow> u),
              cp_message = ''Send the following link to the user to authorize '' @ appName @ '':'',
              cp_authUrl = (case cr_redirectUrl cr of None \<Rightarrow> [] | Some u \<Rightarrow> u),
              cp_appName = appName\<rparr>)),
      st\<lparr>broker_state := b,
         calls := calls st @ [Initiate (request_for entityId (arg_redirectUri args) appName)]\<rparr>)"
  using assms
  by (cases reply)
     (simp_all add: connect_case_def initiateConnection_def issue_def request_for_def Let_def)

text \<open>
  C7, evaluated at the call \<open>connect\<close> with \<open>appName: "gmail"\<close>. The name submitted to the
  broker is upper-cased (\<open>GMAIL\<close>), but the name returned with the result is the one the
  caller gave (\<open>gmail\<close>), not its upper-cased form; the sibling \<open>connect_multiple\<close> returns
  \<open>name.toUpperCase()\<close>.
\<close>

theorem connect_returns_name_as_given:
  "fst (execute example_broker example_env example_opts connect_gmail example_state)
     = Inr (Connect
         \<lparr>cp_connectedAccountId = ''acc-GMAIL'',
          cp_redirectUrl = ''https://broker.example/GMAIL'',
          cp_message = ''Send the following link to the user to authorize gmail:'',
          cp_authUrl = ''https://broker.example/GMAIL'',
          cp_appName = ''gmail''\<rparr>)
   \<and> calls (snd (execute example_broker example_env example_opts connect_gmail example_state))
     = [Initiate \<lparr>req_entityId = ''default'', req_appName = ''GMAIL'', req_redirectUri = None\<rparr>]
   \<and> toUpperCase ''gmail'' = ''GMAIL''"
proof -
  have a: "arg_action connect_gmail = Some ''connect''"
    by (simp add: connect_gmail_def no_args_def)
  have e: "execute example_broker example_env example_opts connect_gmail example_state =
      connect_case example_broker example_client (resolve_entity connect_gmail example_opts)
        connect_gmail (example_state\<lparr>client_mod := example_module\<rparr>)"
    using execute_with_client[OF a example_get_client, of example_broker] by (simp add: Let_def)
  show ?thesis
    unfolding e
    by (simp add: connect_gmail_def no_args_def connect_case_def initiateConnection_def issue_def
          example_broker_def toUpperCase_examples example_state_def resolve_entity_def
          example_opts_def Let_def)
qed

lemma status_case_run:
  assumes "arg_connectedAccountId args = Some accountId"
    and "getAccount br client accountId (broker_state st) = (reply, b)"
  shows "status_case br client args st =
     ((case reply of
         Inl err \<Rightarrow> Inl (Rethrown err)
       | Inr r \<Rightarrow> Inr (Status (account_of_record r accountId ''INITIATED''))),
      st\<lparr>broker_state := b, calls := calls st @ [GetAccount accountId]\<rparr>)"
  using assms
  by (cases reply) (simp_all add: status_case_def getConnectionStatus_def issue_def Let_def)

lemma acc_status_of_record:
  "acc_status (account_of_record r accountId fallback) = toStr (field r ''status'') fallback"
  by (simp add: account_of_record_def)

text \<open>
  C6, as the code has it. The \<open>status\<close> action issues one \<open>get\<close> call to the broker at
  every call (nothing is cached) and builds its result from that reply alone: a status
  that is a string is echoed as it is, a number or boolean is printed, and when the
  broker's record has no status (or one of another type) the result carries the default
  \<open>INITIATED\<close>. A call that throws is rethrown.
\<close>

theorem status_reports_broker:
  assumes "arg_action args = Some ''status''"
    and "arg_connectedAccountId args = Some accountId"
    and "getComposioClient env (composioConfig opts) (client_mod st) = (Some client, m)"
    and "getAccount br client accountId (broker_state st) = (reply, b)"
  shows "calls (snd (execute br env opts args st)) = calls st @ [GetAccount accountId]
       \<and> broker_state (snd (execute br env opts args st)) = b
       \<and> (case reply of
            Inl err \<Rightarrow> fst (execute br env opts args st) = Inl (Rethrown err)
          | Inr r \<Rightarrow>
              (\<exists>account.
                 fst (execute br env opts args st) = Inr (Status account)
               \<and> acc_status account =
                   (case field r ''status'' of
                      JString s \<Rightarrow> s
                    | JNumber n \<Rightarrow> string_of_int n
                    | JBool t \<Rightarrow> (if t then ''true'' else ''false'')
                    | _ \<Rightarrow> ''INITIATED'')))"
proof -
  have e: "execute br env opts args st = status_case br client args (st\<lparr>client_mod := m\<rparr>)"
    using execute_with_client[OF assms(1) assms(3), of br] by (simp add: Let_def)
  have s: "status_case br client args (st\<lparr>client_mod := m\<rparr>) =
     ((case reply of
         Inl err \<Rightarrow> Inl (Rethrown err)
       | Inr r \<Rightarrow> Inr (Status (account_of_record r accountId ''INITIATED''))),
      st\<lparr>client_mod := m, broker_state := b, calls := calls st @ [GetAccount accountId]\<rparr>)"
    using status_case_run[OF assms(2), of br client "st\<lparr>client_mod := m\<rparr>" reply b] assms(4)
    by simp
  show ?thesis
    unfolding e s
    by (cases reply) (simp_all add: acc_status_of_record toStr_def split: jvalue.splits)
qed

text \<open>
  The broker's record of the account \<open>acc-2\<close> has no status: the result carries
  \<open>INITIATED\<close>, which the broker did not report.
\<close>

theorem status_default_counterexample:
  "map_of [(''id'', JString ''acc-2'')] ''status'' = None
   \<and> getAccount example_broker example_client ''acc-2'' 0
       = (Inr [(''id'', JString ''acc-2'')], 0)
   \<and> fst (execute example_broker example_env example_opts (status_of ''acc-2'') example_state)
       = Inr (Status \<lparr>acc_id = ''acc-2'', acc_appName = [], acc_status = ''INITIATED'',
                       acc_createdAt = [], acc_updatedAt = []\<rparr>)"
proof -
  have a: "arg_action (status_of ''acc-2'') = Some ''status''"
    by (simp add: status_of_def no_args_def)
  have e: "execute example_broker example_env example_opts (status_of ''acc-2'') example_state =
      status_case example_broker example_client (status_of ''acc-2'')
        (example_state\<lparr>client_mod := example_module\<rparr>)"
    using execute_with_client[OF a example_get_client, of example_broker] by (simp add: Let_def)
  show ?thesis
    unfolding e
    by (simp add: status_of_def no_args_def status_case_def getConnectionStatus_def issue_def
          example_broker_def example_state_def account_of_record_def field_def toStr_def Let_def)
qed

text \<open>The broker reports the account \<open>acc-1\<close> as \<open>EXPIRED\<close>.\<close>

theorem status_reports_broker_witness:
  "arg_action (status_of ''acc-1'') = Some ''status''
   \<and> arg_connectedAccountId (status_of ''acc-1'') = Some ''acc-1''
   \<and> getComposioClient example_env (composioConfig example_opts) (client_mod example_state)
        = (Some example_client, example_module)
   \<and> getAccount example_broker example_client ''acc-1'' (broker_state example_state)
        = (Inr [(''id'', JString ''acc-1''), (''status'', JString ''EXPIRED'')], 0)
   \<and> calls (snd (execute example_broker example_env example_opts (status_of ''acc-1'')
                    example_state)) = [GetAccount ''acc-1'']
   \<and> (\<exists>account.
         fst (execute example_broker example_env example_opts (status_of ''acc-1'') example_state)
           = Inr (Status account)
       \<and> acc_status account = ''EXPIRED'')"
proof -
  have h1: "arg_action (status_of ''acc-1'') = Some ''status''"
    and h2: "arg_connectedAccountId (status_of ''acc-1'') = Some ''acc-1''"
    by (simp_all add: status_of_def no_args_def)
  have h4: "getAccount example_broker example_client ''acc-1'' (broker_state example_state)
        = (Inr [(''id'', JString ''acc-1''), (''status'', JString ''EXPIRED'')], 0)"
    by (simp add: example_broker_def example_state_def)
  from status_reports_broker[OF h1 h2 example_get_client h4]
  have "calls (snd (execute example_broker example_env example_opts (status_of ''acc-1'')
                    example_state)) = [GetAccount ''acc-1'']
   \<and> (\<exists>account.
         fst (execute example_broker example_env example_opts (status_of ''acc-1'') example_state)
           = Inr (Status account)
       \<and> acc_status account = ''EXPIRED'')"
    by (simp add: field_def example_state_def)
  with h1 h2 h4 example_get_client show ?thesis by blast
qed

section \<open>Properties of the recipe catalogue\<close>

lemma recipe_ids:
  "recipe_id daily_assistant = ''daily-assistant''"
  "recipe_id creative_partner = ''creative-partner''"
  "recipe_id research_analyst = ''research-analyst''"
  "recipe_id learning_coach = ''learning-coach''"
  by (simp_all add: daily_assistant_def creative_partner_def research_analyst_def
        learning_coach_def)


lemma getRecipe_eq:
  "getRecipe rid =
     (if rid = ''learning-coach'' then Some learning_coach
      else if rid = ''research-analyst'' then Some research_analyst
      else if rid = ''creative-partner'' then Some creative_partner
      else if rid = ''daily-assistant'' then Some daily_assistant
      else None)"
  by (simp add: getRecipe_def recipeById_def RECIPES_def recipe_ids)










section \<open>Properties of the onboarding handler\<close>

lemma onboard_simple_unfold:
  \<open>onboard_simple env params w =
     (if \<not> validateOnboardSimpleParams params
      then (RespondError INVALID_REQUEST
              (''invalid onboard.simple params: '' @ formatValidationErrors env params), w)
      else case getRecipe (recipeId_of params) of
             None \<Rightarrow>
               (RespondError INVALID_REQUEST (''unknown recipe: "'' @ recipeId_of params @ ''"''), w)
           | Some recipe \<Rightarrow>
               if agentId_of env params = DEFAULT_AGENT_ID env
               then (RespondError INVALID_REQUEST (''"'' @ DEFAULT_AGENT_ID env @ ''" is reserved''), w)
               else if registered (loadConfig w) (agentId_of env params)
               then (RespondError INVALID_REQUEST
                       (''agent "'' @ agentId_of env params @ ''" already exists''), w)
               else case perform env (steps_of env params recipe w) w of
                      (Some e, w') \<Rightarrow> (Threw e, w')
                    | (None, w') \<Rightarrow>
                        (RespondOk
                           \<lparr>res_agentId = agentId_of env params,
                            res_workspace = workspace_of env (loadConfig w) (agentId_of env params),
                            res_recipeId = recipe_id recipe,
                            res_model = SIMPLE_ONBOARD_MODEL\<rparr>, w'))\<close>
  unfolding onboard_simple_def Let_def botName_of_def userName_of_def recipeId_of_def
    entityId_of_def agentId_of_def nextConfig_of_def steps_of_def registered_def
  by (simp split: option.splits)

text \<open>
  C4. A request that fails validation, names an unknown recipe, normalizes to the reserved
  default agent identifier, or names an agent that is already registered is answered with
  an \<open>INVALID_REQUEST\<close> failure, and the world after the call is the world before it: no
  directory, no file, no persisted configuration and no operation is added. For an
  unknown recipe the message is \<open>unknown recipe: "<id>"\<close>, with the identifier as the
  handler reads it (trimmed).
\<close>

theorem onboard_simple_rejects_without_effect:
  assumes "\<not> validateOnboardSimpleParams params
         \<or> getRecipe (recipeId_of params) = None
         \<or> agentId_of env params = DEFAULT_AGENT_ID env
         \<or> registered (loadConfig w) (agentId_of env params)"
  shows \<open>(\<exists>message. onboard_simple env params w = (RespondError INVALID_REQUEST message, w))
       \<and> (validateOnboardSimpleParams params \<and> getRecipe (recipeId_of params) = None \<longrightarrow>
            onboard_simple env params w =
              (RespondError INVALID_REQUEST (''unknown recipe: "'' @ recipeId_of params @ ''"''), w))\<close>
  using assms by (auto simp: onboard_simple_unfold split: option.splits)

lemma perform_None:
  "perform env es w = (None, w') \<Longrightarrow> w' = fold apply_effect es w \<and> (\<forall>e\<in>set es. \<not> fs_throws env e)"
  by (induction es arbitrary: w) (auto split: if_splits)

lemma perform_ok:
  "\<forall>e\<in>set es. \<not> fs_throws env e \<Longrightarrow> perform env es w = (None, fold apply_effect es w)"
  by (induction es arbitrary: w) auto

lemma perform_fst_any_world: "fst (perform env es w) = fst (perform env es v)"
  by (induction es arbitrary: w v) auto

lemma effects_apply: "effects (apply_effect e w) = effects w @ [e]"
  by (cases e) simp_all

lemma effects_fold: "effects (fold apply_effect es w) = effects w @ es"
  by (induction es arbitrary: w) (simp_all add: effects_apply)

lemma persisted_apply:
  "persisted_config (apply_effect e w) =
     (case e of WriteConfigFile cfg \<Rightarrow> cfg | _ \<Rightarrow> persisted_config w)"
  by (cases e) simp_all

lemma directories_apply:
  "directories (apply_effect e w) =
     (case e of MkdirP d \<Rightarrow> insert d (directories w) | _ \<Rightarrow> directories w)"
  by (cases e) simp_all

lemma directories_fold_mono: "directories w \<subseteq> directories (fold apply_effect es w)"
proof (induction es arbitrary: w)
  case Nil
  show ?case by simp
next
  case (Cons e es)
  have "directories w \<subseteq> directories (apply_effect e w)"
    by (cases e) auto
  with Cons[of "apply_effect e w"] show ?case by auto
qed

lemma persisted_fold_files:
  "\<forall>e\<in>set es. \<exists>f c. e = WriteFile f c \<Longrightarrow>
   persisted_config (fold apply_effect es w) = persisted_config w"
  by (induction es arbitrary: w) (auto simp: persisted_apply)

lemma steps_of_split:
  "steps_of env params recipe w =
     [MkdirP (workspace_of env (loadConfig w) (agentId_of env params)),
      MkdirP (resolveSessionTranscriptsDirForAgent env (agentId_of env params)),
      WriteConfigFile (nextConfig_of env params w)] @ written_files env params recipe w"
  by (simp add: written_files_def steps_of_def provisioning_steps_def)

lemma written_files_shape:
  "written_files env params recipe w \<noteq> []
   \<and> (\<forall>e\<in>set (written_files env params recipe w). \<exists>f c. e = WriteFile f c)"
  by (auto simp: written_files_def steps_of_def provisioning_steps_def split: option.splits)

lemma steps_result:
  "persisted_config (fold apply_effect (steps_of env params recipe w) w) = nextConfig_of env params w
   \<and> workspace_of env (loadConfig w) (agentId_of env params)
        \<in> directories (fold apply_effect (steps_of env params recipe w) w)
   \<and> resolveSessionTranscriptsDirForAgent env (agentId_of env params)
        \<in> directories (fold apply_effect (steps_of env params recipe w) w)"
proof -
  let ?w3 = "apply_effect (WriteConfigFile (nextConfig_of env params w))
      (apply_effect (MkdirP (resolveSessionTranscriptsDirForAgent env (agentId_of env params)))
         (apply_effect (MkdirP (workspace_of env (loadConfig w) (agentId_of env params))) w))"
  have f: "fold apply_effect (steps_of env params recipe w) w
        = fold apply_effect (written_files env params recipe w) ?w3"
    by (simp add: steps_of_split)
  have p: "persisted_config ?w3 = nextConfig_of env params w" by simp
  have d: "workspace_of env (loadConfig w) (agentId_of env params) \<in> directories ?w3"
     "resolveSessionTranscriptsDirForAgent env (agentId_of env params) \<in> directories ?w3"
    by simp_all
  show ?thesis
    unfolding f
    using persisted_fold_files[of "written_files env params recipe w" ?w3] written_files_shape[of env params recipe w]
      directories_fold_mono[of ?w3 "written_files env params recipe w"] p d
    by auto
qed

lemma onboard_simple_okD:
  assumes "onboard_simple env params w = (RespondOk result, w')"
  shows "\<exists>recipe.
      validateOnboardSimpleParams params
    \<and> getRecipe (recipeId_of params) = Some recipe
    \<and> agentId_of env params \<noteq> DEFAULT_AGENT_ID env
    \<and> \<not> registered (loadConfig w) (agentId_of env params)
    \<and> perform env (steps_of env params recipe w) w = (None, w')
    \<and> result = \<lparr>res_agentId = agentId_of env params,
                  res_workspace = workspace_of env (loadConfig w) (agentId_of env params),
                  res_recipeId = recipe_id recipe,
                  res_model = SIMPLE_ONBOARD_MODEL\<rparr>"
  using assms
  by (auto simp: onboard_simple_unfold split: if_splits option.splits prod.splits)

lemma onboard_simple_okI:
  assumes "validateOnboardSimpleParams params"
    and "getRecipe (recipeId_of params) = Some recipe"
    and "agentId_of env params \<noteq> DEFAULT_AGENT_ID env"
    and "\<not> registered (loadConfig w) (agentId_of env params)"
    and "\<forall>e\<in>set (steps_of env params recipe w). \<not> fs_throws env e"
  shows "onboard_simple env params w =
     (RespondOk \<lparr>res_agentId = agentId_of env params,
                 res_workspace = workspace_of env (loadConfig w) (agentId_of env params),
                 res_recipeId = recipe_id recipe,
                 res_model = SIMPLE_ONBOARD_MODEL\<rparr>,
      fold apply_effect (steps_of env params recipe w) w)"
  using assms by (simp add: onboard_simple_unfold perform_ok)

text \<open>
  C5. In every call of \<open>onboard.simple\<close> that responds with success, the operations added
  are, in this order: the creation of the workspace directory, the creation of the
  session-transcripts directory, the write of the configuration, and then the writes of
  the workspace files, of which there is at least one. Creating a directory that exists
  is not an error: the call succeeds with the same result whatever directories exist
  before it, and creating an existing directory leaves the directories as they are.
\<close>

theorem onboard_simple_effect_order:
  assumes "onboard_simple env params w = (RespondOk result, w')"
  shows "\<exists>written.
      effects w' = effects w
         @ [MkdirP (res_workspace result),
            MkdirP (resolveSessionTranscriptsDirForAgent env (res_agentId result)),
            WriteConfigFile (nextConfig_of env params w)]
         @ written
    \<and> written \<noteq> []
    \<and> (\<forall>e\<in>set written. \<exists>f c. e = WriteFile f c)
    \<and> persisted_config w' = nextConfig_of env params w
    \<and> res_workspace result \<in> directories w'
    \<and> resolveSessionTranscriptsDirForAgent env (res_agentId result) \<in> directories w'
    \<and> (\<forall>dirs. fst (onboard_simple env params (w\<lparr>directories := dirs\<rparr>)) = RespondOk result)
    \<and> (\<forall>d. d \<in> directories w \<longrightarrow> directories (apply_effect (MkdirP d) w) = directories w)"
proof -
  from onboard_simple_okD[OF assms] obtain recipe where
    v: "validateOnboardSimpleParams params"
    and r: "getRecipe (recipeId_of params) = Some recipe"
    and a: "agentId_of env params \<noteq> DEFAULT_AGENT_ID env"
    and n: "\<not> registered (loadConfig w) (agentId_of env params)"
    and p: "perform env (steps_of env params recipe w) w = (None, w')"
    and res: "result = \<lparr>res_agentId = agentId_of env params,
                  res_workspace = workspace_of env (loadConfig w) (agentId_of env params),
                  res_recipeId = recipe_id recipe,
                  res_model = SIMPLE_ONBOARD_MODEL\<rparr>"
    by blast
  from perform_None[OF p] have w': "w' = fold apply_effect (steps_of env params recipe w) w"
    and ok: "\<forall>e\<in>set (steps_of env params recipe w). \<not> fs_throws env e" by simp_all
  have e: "effects w' = effects w
         @ [MkdirP (res_workspace result),
            MkdirP (resolveSessionTranscriptsDirForAgent env (res_agentId result)),
            WriteConfigFile (nextConfig_of env params w)]
         @ written_files env params recipe w"
    unfolding w' effects_fold by (simp add: steps_of_split res)
  have s: "persisted_config w' = nextConfig_of env params w"
     "res_workspace result \<in> directories w'"
     "resolveSessionTranscriptsDirForAgent env (res_agentId result) \<in> directories w'"
    unfolding w' using steps_result[of env params recipe w] by (simp_all add: res)
  have i: "fst (onboard_simple env params (w\<lparr>directories := dirs\<rparr>)) = RespondOk result" for dirs
  proof -
    have l: "loadConfig (w\<lparr>directories := dirs\<rparr>) = loadConfig w" by (simp add: loadConfig_def)
    have st: "steps_of env params recipe (w\<lparr>directories := dirs\<rparr>) = steps_of env params recipe w"
      by (simp add: steps_of_def nextConfig_of_def l)
    show ?thesis
      using onboard_simple_okI[OF v r a, of "w\<lparr>directories := dirs\<rparr>"] n ok
      by (simp add: l st res)
  qed
  have m: "\<forall>d. d \<in> directories w \<longrightarrow> directories (apply_effect (MkdirP d) w) = directories w"
    by (auto simp: insert_absorb)
  from e written_files_shape[of env params recipe w] s i m show ?thesis
    by (intro exI[of _ "written_files env params recipe w"] conjI allI) (assumption | simp)+
qed

lemma findAgentEntryIndex_registered:
  "findAgentEntryIndex es a \<ge> 0 \<longleftrightarrow> a \<in> entry_id ` set es"
  by (induction es) (auto simp: Let_def)

lemma findAgentEntryIndex_nth:
  "findAgentEntryIndex es a \<ge> 0 \<Longrightarrow>
   nat (findAgentEntryIndex es a) < length es \<and> entry_id (es ! nat (findAgentEntryIndex es a)) = a"
proof (induction es)
  case Nil
  then show ?case by simp
next
  case (Cons e es)
  show ?case
  proof (cases "entry_id e = a")
    case True
    then show ?thesis by simp
  next
    case False
    with Cons.prems have g: "findAgentEntryIndex es a \<ge> 0"
      by (auto simp: Let_def split: if_splits)
    from Cons.IH[OF g] g False show ?thesis
      by (simp add: Let_def nat_add_distrib)
  qed
qed

lemma applyAgentConfig_ids:
  "entry_id ` set (agents_list (applyAgentConfig cfg p))
     = insert (p_agentId p) (entry_id ` set (agents_list cfg))"
proof (cases "findAgentEntryIndex (agents_list cfg) (p_agentId p) \<ge> 0")
  case True
  let ?i = "nat (findAgentEntryIndex (agents_list cfg) (p_agentId p))"
  from findAgentEntryIndex_nth[OF True]
  have i: "?i < length (agents_list cfg)" "entry_id (agents_list cfg ! ?i) = p_agentId p"
    by simp_all
  have "map entry_id (agents_list (applyAgentConfig cfg p)) = map entry_id (agents_list cfg)"
    using True i by (simp add: applyAgentConfig_def listAgentEntries_def Let_def map_update
        list_update_same_conv)
  then have "entry_id ` set (agents_list (applyAgentConfig cfg p)) = entry_id ` set (agents_list cfg)"
    by (metis set_map)
  moreover have "p_agentId p \<in> entry_id ` set (agents_list cfg)"
    using True by (simp add: findAgentEntryIndex_registered)
  ultimately show ?thesis by auto
next
  case False
  then show ?thesis
    by (auto simp: applyAgentConfig_def listAgentEntries_def Let_def)
qed

lemma build_config_registered:
  "registered (build_config env cfg agentId botName workspaceDir entityId) agentId"
  by (simp add: registered_def listAgentEntries_def findAgentEntryIndex_registered
        build_config_def Let_def applyAgentConfig_ids applyMinimaxApiConfig_def)

text \<open>
  C2. After a call of \<open>onboard.simple\<close> that responded with success, a second call with
  the same request, or with any valid request with a known recipe whose bot name
  normalizes to the same agent identifier, is answered with the \<open>INVALID_REQUEST\<close>
  failure \<open>agent "<id>" already exists\<close>, and leaves the world that the first call
  produced as it is: directories, files, persisted configuration and operations.
\<close>

theorem onboard_simple_twice:
  assumes "onboard_simple env params w = (RespondOk result, w1)"
  shows \<open>onboard_simple env params w1 =
           (RespondError INVALID_REQUEST (''agent "'' @ res_agentId result @ ''" already exists''), w1)
       \<and> (\<forall>params2.
             validateOnboardSimpleParams params2
           \<and> getRecipe (recipeId_of params2) \<noteq> None
           \<and> agentId_of env params2 = agentId_of env params
           \<longrightarrow> onboard_simple env params2 w1 =
                 (RespondError INVALID_REQUEST
                    (''agent "'' @ res_agentId result @ ''" already exists''), w1))\<close>
proof -
  from onboard_simple_okD[OF assms] obtain recipe where
    v: "validateOnboardSimpleParams params"
    and r: "getRecipe (recipeId_of params) = Some recipe"
    and a: "agentId_of env params \<noteq> DEFAULT_AGENT_ID env"
    and p: "perform env (steps_of env params recipe w) w = (None, w1)"
    and res: "result = \<lparr>res_agentId = agentId_of env params,
                  res_workspace = workspace_of env (loadConfig w) (agentId_of env params),
                  res_recipeId = recipe_id recipe,
                  res_model = SIMPLE_ONBOARD_MODEL\<rparr>"
    by blast
  from perform_None[OF p] have w1: "w1 = fold apply_effect (steps_of env params recipe w) w"
    by simp
  have "loadConfig w1 = nextConfig_of env params w"
    unfolding w1 loadConfig_def using steps_result[of env params recipe w] by simp
  then have reg: "registered (loadConfig w1) (agentId_of env params)"
    by (simp add: nextConfig_of_def build_config_registered)
  have second: \<open>onboard_simple env params2 w1 =
         (RespondError INVALID_REQUEST (''agent "'' @ res_agentId result @ ''" already exists''), w1)\<close>
    if "validateOnboardSimpleParams params2" "getRecipe (recipeId_of params2) \<noteq> None"
       "agentId_of env params2 = agentId_of env params" for params2
    using that a reg by (auto simp: onboard_simple_unfold res split: option.splits)
  from second[of params] v r second show ?thesis by auto
qed

lemma helper_request_values:
  "validateOnboardSimpleParams helper_request"
  "recipeId_of helper_request = ''daily-assistant''"
  "botName_of helper_request = ''Helper''"
  "agentId_of example_onboard_env helper_request = ''helper''"
  "DEFAULT_AGENT_ID example_onboard_env = ''main''"
  "loadConfig empty_world =
     \<lparr>agents_list = [], agents_defaults_workspace = None, agents_defaults_model = None,
      cfg_composio = None\<rparr>"
  by (simp_all add: helper_request_def validateOnboardSimpleParams_def nonEmptyString_def
        optionalString_def recipeId_of_def botName_of_def agentId_of_def js_String_def
        sanitizeLine_def trim_def js_space_def example_onboard_env_def toLowerChar_def
        loadConfig_def empty_world_def)

lemma unknown_recipe_request_values:
  "validateOnboardSimpleParams unknown_recipe_request"
  "recipeId_of unknown_recipe_request = ''does-not-exist''"
  by (simp_all add: unknown_recipe_request_def helper_request_def validateOnboardSimpleParams_def
        nonEmptyString_def optionalString_def recipeId_of_def js_String_def trim_def js_space_def)

lemma helper_first_call:
  "onboard_simple example_onboard_env helper_request empty_world
     = (RespondOk helper_result, helper_world)"
proof -
  have r: "getRecipe (recipeId_of helper_request) = Some daily_assistant"
    by (simp add: helper_request_values getRecipe_eq)
  have n: "\<not> registered (loadConfig empty_world) (agentId_of example_onboard_env helper_request)"
    by (simp add: registered_def helper_request_values listAgentEntries_def)
  have a: "agentId_of example_onboard_env helper_request \<noteq> DEFAULT_AGENT_ID example_onboard_env"
    by (simp add: helper_request_values)
  have t: "\<forall>e\<in>set (steps_of example_onboard_env helper_request daily_assistant empty_world).
             \<not> fs_throws example_onboard_env e"
    by (simp add: example_onboard_env_def)
  have w: "workspace_of example_onboard_env (loadConfig empty_world) ''helper''
             = ''~/.openclaw/workspace/helper''"
    by (simp add: workspace_of_def helper_request_values example_onboard_env_def)
  have "fst (onboard_simple example_onboard_env helper_request empty_world) = RespondOk helper_result"
    using onboard_simple_okI[OF helper_request_values(1) r a n t]
    by (simp add: helper_result_def helper_request_values(4) w recipe_ids SIMPLE_ONBOARD_MODEL_def)
  then show ?thesis
    by (simp add: helper_world_def prod_eq_iff)
qed

text \<open>
  A request for the recipe \<open>does-not-exist\<close> on an empty installation, and a request for
  an agent that is registered.
\<close>

theorem onboard_simple_rejects_without_effect_witness:
  \<open>validateOnboardSimpleParams unknown_recipe_request
   \<and> getRecipe (recipeId_of unknown_recipe_request) = None
   \<and> onboard_simple example_onboard_env unknown_recipe_request empty_world
       = (RespondError INVALID_REQUEST ''unknown recipe: "does-not-exist"'', empty_world)
   \<and> registered (loadConfig helper_world) (agentId_of example_onboard_env helper_request)
   \<and> (\<exists>message. onboard_simple example_onboard_env helper_request helper_world
                    = (RespondError INVALID_REQUEST message, helper_world))\<close>
proof -
  have n: "getRecipe (recipeId_of unknown_recipe_request) = None"
    by (simp add: unknown_recipe_request_values getRecipe_eq)
  from onboard_simple_okD[OF helper_first_call] obtain recipe where
    p: "perform example_onboard_env
          (steps_of example_onboard_env helper_request recipe empty_world) empty_world
        = (None, helper_world)"
    by blast
  have "loadConfig helper_world = nextConfig_of example_onboard_env helper_request empty_world"
    using perform_None[OF p] steps_result[of example_onboard_env helper_request recipe empty_world]
    by (simp add: loadConfig_def)
  then have reg: "registered (loadConfig helper_world) (agentId_of example_onboard_env helper_request)"
    by (simp add: nextConfig_of_def build_config_registered)
  from onboard_simple_rejects_without_effect[of unknown_recipe_request example_onboard_env empty_world]
    onboard_simple_rejects_without_effect[of helper_request example_onboard_env helper_world]
    n reg unknown_recipe_request_values
  show ?thesis by simp
qed

text \<open>The request of Ada for the bot \<open>Helper\<close> on an empty installation.\<close>

theorem onboard_simple_effect_order_witness:
  "onboard_simple example_onboard_env helper_request empty_world
     = (RespondOk helper_result, helper_world)
   \<and> (\<exists>written.
        effects helper_world =
          [MkdirP ''~/.openclaw/workspace/helper'',
           MkdirP ''~/.openclaw/agents/helper/sessions'',
           WriteConfigFile (nextConfig_of example_onboard_env helper_request empty_world)]
          @ written
      \<and> written \<noteq> [])
   \<and> persisted_config helper_world = nextConfig_of example_onboard_env helper_request empty_world
   \<and> ''~/.openclaw/workspace/helper'' \<in> directories helper_world
   \<and> ''~/.openclaw/agents/helper/sessions'' \<in> directories helper_world
   \<and> fst (onboard_simple example_onboard_env helper_request
            (empty_world\<lparr>directories := {''~/.openclaw/workspace/helper''}\<rparr>))
       = RespondOk helper_result"
proof -
  from onboard_simple_effect_order[OF helper_first_call] obtain written where
    e: "effects helper_world = effects empty_world
         @ [MkdirP (res_workspace helper_result),
            MkdirP (resolveSessionTranscriptsDirForAgent example_onboard_env (res_agentId helper_result)),
            WriteConfigFile (nextConfig_of example_onboard_env helper_request empty_world)]
         @ written"
    and w: "written \<noteq> []"
    and p: "persisted_config helper_world = nextConfig_of example_onboard_env helper_request empty_world"
    and d: "res_workspace helper_result \<in> directories helper_world"
       "resolveSessionTranscriptsDirForAgent example_onboard_env (res_agentId helper_result)
          \<in> directories helper_world"
    and i: "\<forall>dirs. fst (onboard_simple example_onboard_env helper_request
                          (empty_world\<lparr>directories := dirs\<rparr>)) = RespondOk helper_result"
    by blast
  have v: "res_workspace helper_result = ''~/.openclaw/workspace/helper''"
    "resolveSessionTranscriptsDirForAgent example_onboard_env (res_agentId helper_result)
       = ''~/.openclaw/agents/helper/sessions''"
    "effects empty_world = []"
    by (simp_all add: helper_result_def example_onboard_env_def empty_world_def)
  have "\<exists>written.
        effects helper_world =
          [MkdirP ''~/.openclaw/workspace/helper'',
           MkdirP ''~/.openclaw/agents/helper/sessions'',
           WriteConfigFile (nextConfig_of example_onboard_env helper_request empty_world)]
          @ written
      \<and> written \<noteq> []"
    using e w unfolding v by (intro exI[of _ written]) simp
  with helper_first_call p d i show ?thesis unfolding v by blast
qed

text \<open>The request of Ada for the bot \<open>Helper\<close>, twice.\<close>

theorem onboard_simple_twice_witness:
  \<open>onboard_simple example_onboard_env helper_request empty_world
     = (RespondOk helper_result, helper_world)
   \<and> onboard_simple example_onboard_env helper_request helper_world
     = (RespondError INVALID_REQUEST ''agent "helper" already exists'', helper_world)\<close>
  using onboard_simple_twice[OF helper_first_call] helper_first_call
  by (simp add: helper_result_def)

end
